theory Spec2Isabelle
  imports Main
begin

section \<open>EIP bootstrapper: data model\<close>

text \<open>
  The development embeds \<^verbatim>\<open>src/leap/services/eip/eipbootstrapper.py\<close>. The class
  \<^verbatim>\<open>EIPBootstrapper\<close> keeps a queue of checks, runs them on a worker thread and emits
  a Qt signal with a dictionary \<^verbatim>\<open>{"passed": bool, "error": str}\<close> after each check.

  Exceptions are values. Only instances of Python's \<^verbatim>\<open>Exception\<close> are modelled (the
  handlers of the source are \<^verbatim>\<open>except Exception\<close> and \<^verbatim>\<open>except OSError\<close>). An
  \<^verbatim>\<open>AssertionError\<close> is one raised by an \<^verbatim>\<open>assert\<close> of this file, with its literal
  text. Every other exception carries what formatting it with \<^verbatim>\<open>"%s" % (e,)\<close> does:
  it yields a text, or it raises an exception itself (in Python 2 a
  \<^verbatim>\<open>UnicodeEncodeError\<close>, when the message is a unicode string with a character
  outside ASCII). An \<^verbatim>\<open>OSError\<close> also carries its \<^verbatim>\<open>errno\<close>.
\<close>

datatype exn =
    AssertionError string
  | OSError int "exn + string"
  | OtherException "exn + string"

text \<open>
  The expression \<^verbatim>\<open>"%s" % (e,)\<close> of the two handlers (lines 151 and 213): \<open>Inl\<close> is
  the exception it raises, \<open>Inr\<close> the text it yields.
\<close>

fun str :: "exn \<Rightarrow> exn + string" where
  "str (AssertionError m) = Inr m"
| "str (OSError en t) = t"
| "str (OtherException t) = t"

definition EEXIST :: int where
  "EEXIST = 17"

text \<open>
  \<^verbatim>\<open>ProviderConfig\<close> lives in \<^verbatim>\<open>leap.config.providerconfig\<close>; the bootstrapper only
  reads four getters of it, which are the fields of the record.
\<close>

record ProviderConfig =
  get_domain :: string
  get_api_uri :: string
  get_api_version :: string
  get_ca_cert_path :: string

text \<open>
  The argument handed to \<^verbatim>\<open>run_eip_setup_checks\<close> is any Python object: \<^verbatim>\<open>None\<close>, a
  \<^verbatim>\<open>ProviderConfig\<close> (a plain object, hence truthy), or an object of another type,
  given by its truth value and the \<^verbatim>\<open>repr\<close> of its type.
\<close>

datatype pyobj =
    PyNone
  | PyProviderConfig ProviderConfig
  | PyOther bool string

text \<open>The response object of the HTTP session.\<close>

record response =
  status_code :: int
  content :: string

text \<open>The dictionary carried by both signals, and the two signals of the class.\<close>

record check_data =
  passed :: bool
  error :: string

datatype signal = download_config_signal | download_client_certificate_signal

datatype lock = ChecksLock | ShouldQuitLock

text \<open>
  Every call that reaches outside the object is recorded, in the order of execution:
  HTTP requests (URL and \<^verbatim>\<open>verify\<close> argument), \<^verbatim>\<open>EIPConfig.load\<close> and
  \<^verbatim>\<open>EIPConfig.save\<close>, \<^verbatim>\<open>os.makedirs\<close>, the write of a file, signal emissions, mutex
  operations and \<^verbatim>\<open>usleep\<close>. Calls to \<^verbatim>\<open>logger.debug\<close> are not modelled.
\<close>

datatype event =
    HttpGet string string
  | ConfigLoad string
  | ConfigSave "string list"
  | MakeDirs string
  | WriteFile string string
  | Emit signal check_data
  | Acquire lock
  | Release lock
  | Usleep nat

text \<open>
  The queue holds bound methods; there are two of them.
\<close>

datatype check = DownloadConfig | DownloadClientCertificates

text \<open>
  The collaborators of the class are parameters: the HTTP session
  (\<^verbatim>\<open>self._session.get\<close>, \<^verbatim>\<open>res.raise_for_status\<close>), the \<^verbatim>\<open>EIPConfig\<close> class of
  \<^verbatim>\<open>leap.services.eip.eipconfig\<close> (objects of type \<open>'c\<close>), and the functions of \<^verbatim>\<open>os\<close>
  and \<^verbatim>\<open>os.path\<close>. The outside world (file system and network) is a value of type \<open>'w\<close>
  that every effectful call reads and returns. A call that can raise returns the
  exception, if any, together with the world or object it leaves behind.
\<close>

record ('w, 'c) env =
  session_get :: "'w \<Rightarrow> string \<Rightarrow> string \<Rightarrow> (exn + response) \<times> 'w"
  raise_for_status :: "response \<Rightarrow> exn option"
  new_EIPConfig :: 'c
  get_path_prefix :: "'c \<Rightarrow> string"
  load :: "'c \<Rightarrow> string \<Rightarrow> exn option \<times> 'c"
  save :: "'w \<Rightarrow> 'c \<Rightarrow> string list \<Rightarrow> exn option \<times> 'w"
  get_client_cert_path :: "'c \<Rightarrow> ProviderConfig \<Rightarrow> bool \<Rightarrow> exn + string"
  path_join :: "string list \<Rightarrow> string"
  path_dirname :: "string \<Rightarrow> string"
  path_exists :: "'w \<Rightarrow> string \<Rightarrow> bool"
  path_isdir :: "'w \<Rightarrow> string \<Rightarrow> bool"
  makedirs :: "'w \<Rightarrow> string \<Rightarrow> exn option \<times> 'w"
  write_file :: "'w \<Rightarrow> string \<Rightarrow> string \<Rightarrow> exn option \<times> 'w"

text \<open>
  The attributes of an \<^verbatim>\<open>EIPBootstrapper\<close> (\<^verbatim>\<open>_checks\<close>, \<^verbatim>\<open>_should_quit\<close>,
  \<^verbatim>\<open>_provider_config\<close>, \<^verbatim>\<open>_eip_config\<close>, \<^verbatim>\<open>_download_if_needed\<close>), together with the
  outside world and the record of calls made so far.
\<close>

record ('w, 'c) bootstrapper =
  checks :: "check list"
  should_quit :: bool
  provider_config :: "ProviderConfig option"
  eip_config :: "'c option"
  download_if_needed :: bool
  world :: 'w
  trace :: "event list"

section \<open>Operations\<close>

definition init :: "'w \<Rightarrow> ('w, 'c) bootstrapper" where
  "init w = \<lparr>checks = [], should_quit = False, provider_config = None,
             eip_config = None, download_if_needed = False, world = w, trace = []\<rparr>"

definition log :: "event \<Rightarrow> ('w, 'c) bootstrapper \<Rightarrow> ('w, 'c) bootstrapper" where
  "log ev s = s\<lparr>trace := trace s @ [ev]\<rparr>"

definition emit :: "signal \<Rightarrow> check_data \<Rightarrow> ('w, 'c) bootstrapper \<Rightarrow> ('w, 'c) bootstrapper" where
  "emit sig d s = log (Emit sig d) s"

text \<open>
  \<^verbatim>\<open>get_should_quit\<close>: the \<^verbatim>\<open>QMutexLocker\<close> is not bound to a name, so it is released
  as soon as it has been built; then the flag is read.
\<close>

definition get_should_quit :: "('w, 'c) bootstrapper \<Rightarrow> bool \<times> ('w, 'c) bootstrapper" where
  "get_should_quit s =
     (let s1 = log (Release ShouldQuitLock) (log (Acquire ShouldQuitLock) s)
      in (should_quit s1, s1))"

text \<open>
  The body of the \<^verbatim>\<open>try\<close> of \<^verbatim>\<open>_download_config\<close> (lines 132 to 149). The result is
  the exception that left the body, if any, and the state at that point. \<open>cfg\<close> is the
  object \<^verbatim>\<open>self._eip_config\<close> refers to; \<^verbatim>\<open>load\<close> changes it in place.
\<close>

definition download_config_try ::
  "('w, 'c) env \<Rightarrow> ProviderConfig \<Rightarrow> 'c \<Rightarrow> ('w, 'c) bootstrapper
     \<Rightarrow> exn option \<times> ('w, 'c) bootstrapper" where
  "download_config_try env pc cfg s =
     (let url = get_api_uri pc @ ''/'' @ get_api_version pc @ ''/'' @ ''config'' @ ''/''
                  @ ''eip-service.json'';
          verify = get_ca_cert_path pc
      in case session_get env (world s) url verify of
           (Inl e, w1) \<Rightarrow> (Some e, log (HttpGet url verify) (s\<lparr>world := w1\<rparr>))
         | (Inr res, w1) \<Rightarrow>
             (let s1 = log (HttpGet url verify) (s\<lparr>world := w1\<rparr>)
              in case raise_for_status env res of
                   Some e \<Rightarrow> (Some e, s1)
                 | None \<Rightarrow>
                     (let eip_definition = content res
                      in case load env cfg eip_definition of
                           (Some e, cfg1) \<Rightarrow>
                             (Some e, log (ConfigLoad eip_definition) (s1\<lparr>eip_config := Some cfg1\<rparr>))
                         | (None, cfg1) \<Rightarrow>
                             (let s2 = log (ConfigLoad eip_definition)
                                         (s1\<lparr>eip_config := Some cfg1\<rparr>);
                                  parts = [''leap'', ''providers'', get_domain pc,
                                           ''eip-service.json'']
                              in case save env (world s2) cfg1 parts of
                                   (r, w2) \<Rightarrow> (r, log (ConfigSave parts) (s2\<lparr>world := w2\<rparr>))))))"

text \<open>
  \<^verbatim>\<open>_download_config\<close>. The result is the exception raised to the caller or the
  boolean returned, with the state left behind. The handler formats the exception it
  has caught; when the formatting raises, that exception leaves the method and nothing
  is emitted.
\<close>

definition download_config ::
  "('w, 'c) env \<Rightarrow> ('w, 'c) bootstrapper \<Rightarrow> (exn + bool) \<times> ('w, 'c) bootstrapper" where
  "download_config env s =
     (case provider_config s of
        None \<Rightarrow> (Inl (AssertionError ''We need a provider configuration!''), s)
      | Some pc \<Rightarrow>
          (let cfg = new_EIPConfig env;
               s0 = s\<lparr>eip_config := Some cfg\<rparr>
           in if download_if_needed s0 \<and>
                 path_exists env (world s0)
                   (path_join env [get_path_prefix env cfg, ''leap'', ''providers'',
                                   get_domain pc, ''eip-service.json''])
              then (Inr True, emit download_config_signal \<lparr>passed = True, error = ''''\<rparr> s0)
              else (case download_config_try env pc cfg s0 of
                      (None, s1) \<Rightarrow>
                        (Inr True,
                         emit download_config_signal \<lparr>passed = True, error = ''''\<rparr> s1)
                    | (Some e, s1) \<Rightarrow>
                        (case str e of
                           Inl e' \<Rightarrow> (Inl e', s1)
                         | Inr m \<Rightarrow>
                             (Inr False,
                              emit download_config_signal
                                \<lparr>passed = False, error = m\<rparr> s1)))))"

text \<open>
  The handler around \<^verbatim>\<open>os.makedirs\<close> (lines 199 to 206): an \<^verbatim>\<open>OSError\<close> with
  \<^verbatim>\<open>errno == EEXIST\<close> is dropped when the directory exists, anything else is raised
  again. The result is the exception that leaves the inner \<^verbatim>\<open>try\<close>.
\<close>

fun makedirs_handler :: "('w, 'c) env \<Rightarrow> 'w \<Rightarrow> string \<Rightarrow> exn option \<Rightarrow> exn option" where
  "makedirs_handler env w d (Some (OSError en m)) =
     (if en = EEXIST \<and> path_isdir env w d then None else Some (OSError en m))"
| "makedirs_handler env w d r = r"

text \<open>The body of the \<^verbatim>\<open>try\<close> of \<^verbatim>\<open>_download_client_certificates\<close> (lines 187 to 211).\<close>

definition download_client_certificates_try ::
  "('w, 'c) env \<Rightarrow> ProviderConfig \<Rightarrow> string \<Rightarrow> ('w, 'c) bootstrapper
     \<Rightarrow> exn option \<times> ('w, 'c) bootstrapper" where
  "download_client_certificates_try env pc client_cert_path s =
     (let url = get_api_uri pc @ ''/'' @ get_api_version pc @ ''/'' @ ''cert'' @ ''/'';
          verify = get_ca_cert_path pc
      in case session_get env (world s) url verify of
           (Inl e, w1) \<Rightarrow> (Some e, log (HttpGet url verify) (s\<lparr>world := w1\<rparr>))
         | (Inr res, w1) \<Rightarrow>
             (let s1 = log (HttpGet url verify) (s\<lparr>world := w1\<rparr>)
              in case raise_for_status env res of
                   Some e \<Rightarrow> (Some e, s1)
                 | None \<Rightarrow>
                     (let client_cert = content res;
                          d = path_dirname env client_cert_path
                      in case makedirs env (world s1) d of
                           (r, w2) \<Rightarrow>
                             (let s2 = log (MakeDirs d) (s1\<lparr>world := w2\<rparr>)
                              in case makedirs_handler env w2 d r of
                                   Some e \<Rightarrow> (Some e, s2)
                                 | None \<Rightarrow>
                                     (case write_file env (world s2) client_cert_path
                                             client_cert of
                                        (r2, w3) \<Rightarrow>
                                          (r2, log (WriteFile client_cert_path client_cert)
                                                 (s2\<lparr>world := w3\<rparr>)))))))"

text \<open>
  \<^verbatim>\<open>_download_client_certificates\<close>. An \<^verbatim>\<open>EIPConfig\<close> object is truthy, so the second
  assertion fails exactly when \<^verbatim>\<open>_eip_config\<close> is \<^verbatim>\<open>None\<close>. The call of
  \<^verbatim>\<open>get_client_cert_path\<close> stands before the \<^verbatim>\<open>try\<close>.
\<close>

definition download_client_certificates ::
  "('w, 'c) env \<Rightarrow> ('w, 'c) bootstrapper \<Rightarrow> (exn + bool) \<times> ('w, 'c) bootstrapper" where
  "download_client_certificates env s =
     (case provider_config s of
        None \<Rightarrow> (Inl (AssertionError ''We need a provider configuration!''), s)
      | Some pc \<Rightarrow>
          (case eip_config s of
             None \<Rightarrow> (Inl (AssertionError ''We need an eip configuration!''), s)
           | Some cfg \<Rightarrow>
               (case get_client_cert_path env cfg pc True of
                  Inl e \<Rightarrow> (Inl e, s)
                | Inr client_cert_path \<Rightarrow>
                    if download_if_needed s \<and> path_exists env (world s) client_cert_path
                    then (Inr True,
                          emit download_client_certificate_signal
                            \<lparr>passed = True, error = ''''\<rparr> s)
                    else (case download_client_certificates_try env pc client_cert_path s of
                            (None, s1) \<Rightarrow>
                              (Inr True,
                               emit download_client_certificate_signal
                                 \<lparr>passed = True, error = ''''\<rparr> s1)
                          | (Some e, s1) \<Rightarrow>
                              (case str e of
                                 Inl e' \<Rightarrow> (Inl e', s1)
                               | Inr m \<Rightarrow>
                                   (Inr False,
                                    emit download_client_certificate_signal
                                      \<lparr>passed = False, error = m\<rparr> s1))))))"

text \<open>
  \<^verbatim>\<open>run_eip_setup_checks\<close>. On a failed assertion nothing has been assigned. The
  \<^verbatim>\<open>QMutexLocker\<close> is again not bound to a name.
\<close>

fun run_eip_setup_checks ::
  "('w, 'c) bootstrapper \<Rightarrow> pyobj \<Rightarrow> bool \<Rightarrow> (exn + unit) \<times> ('w, 'c) bootstrapper" where
  "run_eip_setup_checks s PyNone flag =
     (Inl (AssertionError ''We need a provider config!''), s)"
| "run_eip_setup_checks s (PyOther truthy ty) flag =
     (if \<not> truthy then (Inl (AssertionError ''We need a provider config!''), s)
      else (Inl (AssertionError (''Expected ProviderConfig type, not '' @ ty)), s))"
| "run_eip_setup_checks s (PyProviderConfig pc) flag =
     (let s1 = s\<lparr>provider_config := Some pc, download_if_needed := flag\<rparr>;
          s2 = log (Release ChecksLock) (log (Acquire ChecksLock) s1)
      in (Inr (), s2\<lparr>checks := [DownloadConfig, DownloadClientCertificates]\<rparr>))"

text \<open>Calling an entry of the queue.\<close>

fun exec_check ::
  "('w, 'c) env \<Rightarrow> check \<Rightarrow> ('w, 'c) bootstrapper \<Rightarrow> (exn + bool) \<times> ('w, 'c) bootstrapper" where
  "exec_check env DownloadConfig s = download_config env s"
| "exec_check env DownloadClientCertificates s = download_client_certificates env s"

text \<open>
  The worker loop \<^verbatim>\<open>run\<close>. The loop ends only when \<^verbatim>\<open>_should_quit\<close> is set or a check
  raises, so it is given a bound on the number of iterations; \<open>Running\<close> says that the
  bound was reached with the loop still going. The \<^verbatim>\<open>with\<close> statement acquires
  \<^verbatim>\<open>_checks_lock\<close> on entry and releases it when its block is left, also by an
  exception. \<^verbatim>\<open>pop(0)\<close> shortens the queue before the check is called.
\<close>

datatype outcome = Returned | Raised exn | Running

definition IDLE_SLEEP_INTERVAL :: nat where
  "IDLE_SLEEP_INTERVAL = 100"

fun run ::
  "('w, 'c) env \<Rightarrow> nat \<Rightarrow> ('w, 'c) bootstrapper \<Rightarrow> outcome \<times> ('w, 'c) bootstrapper" where
  "run env 0 s = (Running, s)"
| "run env (Suc n) s =
     (case get_should_quit s of
        (True, s1) \<Rightarrow> (Returned, s1)
      | (False, s1) \<Rightarrow>
          (let s2 = log (Acquire ChecksLock) s1
           in case checks s2 of
                [] \<Rightarrow> run env n (log (Usleep IDLE_SLEEP_INTERVAL) (log (Release ChecksLock) s2))
              | c # rest \<Rightarrow>
                  (case exec_check env c (s2\<lparr>checks := rest\<rparr>) of
                     (Inl e, s3) \<Rightarrow> (Raised e, log (Release ChecksLock) s3)
                   | (Inr True, s3) \<Rightarrow> run env n (log (Release ChecksLock) s3)
                   | (Inr False, s3) \<Rightarrow>
                       run env n (log (Usleep IDLE_SLEEP_INTERVAL)
                                   (log (Release ChecksLock) (s3\<lparr>checks := []\<rparr>))))))"

section \<open>Observing the record of calls\<close>

fun is_emit :: "event \<Rightarrow> bool" where
  "is_emit (Emit sig d) = True"
| "is_emit ev = False"

fun is_emit_on :: "signal \<Rightarrow> event \<Rightarrow> bool" where
  "is_emit_on sig (Emit sig' d) = (sig = sig')"
| "is_emit_on sig ev = False"

fun is_http :: "event \<Rightarrow> bool" where
  "is_http (HttpGet url verify) = True"
| "is_http ev = False"

text \<open>The events of a worker that has nothing to do: mutex operations and sleeping.\<close>

fun is_idle :: "event \<Rightarrow> bool" where
  "is_idle (Acquire l) = True"
| "is_idle (Release l) = True"
| "is_idle (Usleep n) = True"
| "is_idle ev = False"

text \<open>The signal on which a check reports.\<close>

fun signal_of :: "check \<Rightarrow> signal" where
  "signal_of DownloadConfig = download_config_signal"
| "signal_of DownloadClientCertificates = download_client_certificate_signal"


text \<open>
  The state in which the worker loop calls the head of the queue: the flag has been
  read, \<^verbatim>\<open>_checks_lock\<close> has been acquired and the head has been popped.
\<close>

definition popped :: "('w, 'c) bootstrapper \<Rightarrow> check list \<Rightarrow> ('w, 'c) bootstrapper" where
  "popped s rest = (log (Acquire ChecksLock) (snd (get_should_quit s)))\<lparr>checks := rest\<rparr>"

section \<open>A concrete environment\<close>

text \<open>
  A small world for running the model: the world is the list of paths that exist, an
  \<^verbatim>\<open>EIPConfig\<close> object is the text it has loaded, the server answers every request
  with status 200.
\<close>

definition demo_provider :: ProviderConfig where
  "demo_provider = \<lparr>get_domain = ''d.org'', get_api_uri = ''https://api.d.org'',
                     get_api_version = ''1'', get_ca_cert_path = ''/ca.crt''\<rparr>"

definition demo_join :: "string list \<Rightarrow> string" where
  "demo_join ps = foldr (\<lambda>p acc. if acc = [] then p else p @ ''/'' @ acc) ps []"

definition demo_env :: "(string list, string) env" where
  "demo_env =
     \<lparr>session_get = (\<lambda>w url verify. (Inr \<lparr>status_code = 200, content = ''x''\<rparr>, w)),
      raise_for_status =
        (\<lambda>res. if 400 \<le> status_code res \<and> status_code res < 600
                then Some (OtherException (Inr ''HTTPError'')) else None),
      new_EIPConfig = '''',
      get_path_prefix = (\<lambda>c. ''/c''),
      load = (\<lambda>c d. (None, d)),
      save = (\<lambda>w c parts. (None, demo_join (''/c'' # parts) # w)),
      get_client_cert_path = (\<lambda>c pc about_to_download. Inr ''/c/k/o.pem''),
      path_join = demo_join,
      path_dirname = (\<lambda>p. rev (tl (dropWhile (\<lambda>c. c \<noteq> CHR ''/'') (rev p)))),
      path_exists = (\<lambda>w p. p \<in> set w),
      path_isdir = (\<lambda>w p. p \<in> set w),
      makedirs = (\<lambda>w d. if d \<in> set w then (Some (OSError EEXIST (Inr ''File exists'')), w)
                          else (None, d # w)),
      write_file = (\<lambda>w p data. (None, p # w))\<rparr>"

text \<open>The same environment with a server that cannot be reached.\<close>

definition demo_env_offline :: "(string list, string) env" where
  "demo_env_offline =
     demo_env\<lparr>session_get := (\<lambda>w url verify. (Inl (OtherException (Inr ''timeout'')), w))\<rparr>"

text \<open>The same environment with a server that answers 404.\<close>

definition demo_env_404 :: "(string list, string) env" where
  "demo_env_404 =
     demo_env\<lparr>session_get :=
                (\<lambda>w url verify. (Inr \<lparr>status_code = 404, content = ''''\<rparr>, w))\<rparr>"

text \<open>The same environment with an \<^verbatim>\<open>EIPConfig\<close> that cannot compute the path.\<close>

definition demo_env_nopath :: "(string list, string) env" where
  "demo_env_nopath =
     demo_env\<lparr>get_client_cert_path :=
                (\<lambda>c pc about_to_download. Inl (OtherException (Inr ''no path'')))\<rparr>"

text \<open>A bootstrapper in the world \<open>w\<close> that has been configured for the demo provider.\<close>

definition demo_state :: "string list \<Rightarrow> bool \<Rightarrow> (string list, string) bootstrapper" where
  "demo_state w flag = snd (run_eip_setup_checks (init w) (PyProviderConfig demo_provider) flag)"

text \<open>The same environment with a descriptor that \<^verbatim>\<open>load\<close> rejects.\<close>

definition demo_env_badjson :: "(string list, string) env" where
  "demo_env_badjson =
     demo_env\<lparr>load := (\<lambda>c d. (Some (OtherException (Inr ''bad json'')), c))\<rparr>"

text \<open>The same environment with a file system that refuses every change.\<close>

definition demo_env_readonly :: "(string list, string) env" where
  "demo_env_readonly =
     demo_env\<lparr>save := (\<lambda>w c parts. (Some (OSError 13 (Inr ''Permission denied'')), w)),
               makedirs := (\<lambda>w d. (Some (OSError 13 (Inr ''Permission denied'')), w)),
               write_file :=
                 (\<lambda>w p data. (Some (OtherException (Inr ''Permission denied'')), w))\<rparr>"

text \<open>The same environment where directories can be made but no file can be written.\<close>

definition demo_env_nowrite :: "(string list, string) env" where
  "demo_env_nowrite =
     demo_env\<lparr>write_file :=
                 (\<lambda>w p data. (Some (OtherException (Inr ''Disk full'')), w))\<rparr>"

text \<open>
  The same environment with a server that cannot be reached, where the exception of
  the request cannot be formatted.
\<close>

definition demo_env_unprintable :: "(string list, string) env" where
  "demo_env_unprintable =
     demo_env\<lparr>session_get :=
                (\<lambda>w url verify.
                   (Inl (OtherException (Inl (OtherException (Inr ''UnicodeEncodeError'')))),
                    w))\<rparr>"

text \<open>
  The same environment where \<^verbatim>\<open>raise_for_status\<close> raises an exception that cannot be
  formatted.
\<close>

definition demo_env_badstatus :: "(string list, string) env" where
  "demo_env_badstatus =
     demo_env\<lparr>raise_for_status :=
                (\<lambda>res. Some (OtherException
                                (Inl (OtherException (Inr ''UnicodeEncodeError'')))))\<rparr>"

text \<open>
  The same environment with a server that answers 304. As in the \<^verbatim>\<open>requests\<close>
  library, \<^verbatim>\<open>raise_for_status\<close> raises for the statuses from 400 to 599 only.
\<close>

definition demo_env_304 :: "(string list, string) env" where
  "demo_env_304 =
     demo_env\<lparr>session_get :=
                (\<lambda>w url verify. (Inr \<lparr>status_code = 304, content = ''''\<rparr>, w))\<rparr>"

text \<open>
  The same environment with a \<^verbatim>\<open>save\<close> that creates the file and then raises.
\<close>

definition demo_env_partial_save :: "(string list, string) env" where
  "demo_env_partial_save =
     demo_env\<lparr>save :=
                (\<lambda>w c parts. (Some (OSError 28 (Inr ''No space left on device'')),
                               demo_join (''/c'' # parts) # w))\<rparr>"

text \<open>
  A bootstrapper whose configuration check has passed, in the world \<open>w\<close>: the state
  in which the certificate check is called.
\<close>

definition demo_state_cert :: "string list \<Rightarrow> bool \<Rightarrow> (string list, string) bootstrapper" where
  "demo_state_cert w flag = snd (download_config demo_env (demo_state w flag))"

section \<open>Basic facts about the checks\<close>

lemma download_config_try_frame:
  "download_config_try env pc cfg s = (r, s1) \<Longrightarrow>
     checks s1 = checks s \<and> should_quit s1 = should_quit s \<and>
     provider_config s1 = provider_config s \<and> download_if_needed s1 = download_if_needed s"
  by (auto simp: download_config_try_def log_def Let_def
      split: prod.splits sum.splits option.splits)

lemma download_config_try_trace:
  "download_config_try env pc cfg s = (r, s1) \<Longrightarrow>
     \<exists>evs. trace s1 = trace s @ evs \<and> \<not> list_ex is_emit evs"
  by (auto simp: download_config_try_def log_def Let_def
      split: prod.splits sum.splits option.splits)

lemma download_config_frame:
  "download_config env s = (r, s1) \<Longrightarrow>
     checks s1 = checks s \<and> should_quit s1 = should_quit s \<and>
     provider_config s1 = provider_config s \<and> download_if_needed s1 = download_if_needed s"
  by (auto simp: download_config_def emit_def log_def Let_def
      split: prod.splits sum.splits option.splits if_splits
      dest!: download_config_try_frame)

lemma download_config_returns:
  "download_config env s = (Inr b, s1) \<Longrightarrow>
     \<exists>evs e. trace s1 = trace s @ evs @ [Emit download_config_signal \<lparr>passed = b, error = e\<rparr>]
        \<and> \<not> list_ex is_emit evs"
  by (auto simp: download_config_def emit_def log_def Let_def
      split: prod.splits sum.splits option.splits if_splits
      dest!: download_config_try_trace)

lemma download_config_raises:
  "download_config env s = (Inl e, s1) \<Longrightarrow>
     \<exists>evs. trace s1 = trace s @ evs \<and> \<not> list_ex is_emit evs"
  by (auto simp: download_config_def emit_def log_def Let_def
      split: prod.splits sum.splits option.splits if_splits
      dest!: download_config_try_trace)

lemma cert_try_frame:
  "download_client_certificates_try env pc p s = (r, s1) \<Longrightarrow>
     checks s1 = checks s \<and> should_quit s1 = should_quit s \<and> eip_config s1 = eip_config s \<and>
     provider_config s1 = provider_config s \<and> download_if_needed s1 = download_if_needed s"
  by (auto simp: download_client_certificates_try_def log_def Let_def
      split: prod.splits sum.splits option.splits)

lemma cert_try_trace:
  "download_client_certificates_try env pc p s = (r, s1) \<Longrightarrow>
     \<exists>evs. trace s1 = trace s @ evs \<and> \<not> list_ex is_emit evs"
  by (auto simp: download_client_certificates_try_def log_def Let_def
      split: prod.splits sum.splits option.splits)

lemma cert_frame:
  "download_client_certificates env s = (r, s1) \<Longrightarrow>
     checks s1 = checks s \<and> should_quit s1 = should_quit s \<and> eip_config s1 = eip_config s \<and>
     provider_config s1 = provider_config s \<and> download_if_needed s1 = download_if_needed s"
  by (auto simp: download_client_certificates_def emit_def log_def Let_def
      split: prod.splits sum.splits option.splits if_splits dest!: cert_try_frame)

lemma cert_returns:
  "download_client_certificates env s = (Inr b, s1) \<Longrightarrow>
     \<exists>evs e. trace s1 =
        trace s @ evs @ [Emit download_client_certificate_signal \<lparr>passed = b, error = e\<rparr>]
        \<and> \<not> list_ex is_emit evs"
  by (auto simp: download_client_certificates_def emit_def log_def Let_def
      split: prod.splits sum.splits option.splits if_splits dest!: cert_try_trace)

lemma cert_raises:
  "download_client_certificates env s = (Inl e, s1) \<Longrightarrow>
     \<exists>evs. trace s1 = trace s @ evs \<and> \<not> list_ex is_emit evs"
  by (auto simp: download_client_certificates_def emit_def log_def Let_def
      split: prod.splits sum.splits option.splits if_splits dest!: cert_try_trace)

lemma exec_check_frame:
  "exec_check env c s = (r, s1) \<Longrightarrow> checks s1 = checks s \<and> should_quit s1 = should_quit s"
  by (cases c) (auto dest: download_config_frame cert_frame)

lemma exec_check_returns:
  "exec_check env c s = (Inr b, s1) \<Longrightarrow>
     \<exists>evs e. trace s1 = trace s @ evs @ [Emit (signal_of c) \<lparr>passed = b, error = e\<rparr>]
        \<and> \<not> list_ex is_emit evs"
  by (cases c) (auto dest: download_config_returns cert_returns)

lemma exec_check_raises:
  "exec_check env c s = (Inl e, s1) \<Longrightarrow>
     \<exists>evs. trace s1 = trace s @ evs \<and> \<not> list_ex is_emit evs"
  by (cases c) (auto dest: download_config_raises cert_raises)

section \<open>Basic facts about the worker loop\<close>

lemma popped_fields:
  "should_quit (popped s rest) = should_quit s"
  "checks (popped s rest) = rest"
  "trace (popped s rest)
     = trace s @ [Acquire ShouldQuitLock, Release ShouldQuitLock, Acquire ChecksLock]"
  by (simp_all add: popped_def get_should_quit_def log_def Let_def)

lemma run_failed_step:
  assumes "\<not> should_quit s" and "checks s = c # rest"
    and "exec_check env c (popped s rest) = (Inr False, s1)"
  shows "run env (Suc n) s =
           run env n (log (Usleep IDLE_SLEEP_INTERVAL)
                       (log (Release ChecksLock) (s1\<lparr>checks := []\<rparr>)))"
  using assms by (simp add: popped_def get_should_quit_def log_def Let_def)

lemma run_passed_step:
  assumes "\<not> should_quit s" and "checks s = c # rest"
    and "exec_check env c (popped s rest) = (Inr True, s1)"
  shows "run env (Suc n) s = run env n (log (Release ChecksLock) s1)"
  using assms by (simp add: popped_def get_should_quit_def log_def Let_def)

lemma run_raised_step:
  assumes "\<not> should_quit s" and "checks s = c # rest"
    and "exec_check env c (popped s rest) = (Inl e, s1)"
  shows "run env (Suc n) s = (Raised e, log (Release ChecksLock) s1)"
  using assms by (simp add: popped_def get_should_quit_def log_def Let_def)

text \<open>With an empty queue the loop only locks, unlocks and sleeps.\<close>

lemma run_idle:
  "checks s = [] \<Longrightarrow> \<not> should_quit s \<Longrightarrow>
     \<exists>idle. run env n s = (Running, s\<lparr>trace := trace s @ idle\<rparr>) \<and> list_all is_idle idle"
proof (induction n arbitrary: s)
  case 0
  have "run env 0 s = (Running, s\<lparr>trace := trace s @ []\<rparr>)" by simp
  then show ?case by (intro exI [of _ "[]"]) simp
next
  case (Suc n)
  let ?t = "log (Usleep IDLE_SLEEP_INTERVAL) (log (Release ChecksLock)
              (log (Acquire ChecksLock) (snd (get_should_quit s))))"
  have step: "run env (Suc n) s = run env n ?t"
    using Suc.prems by (simp add: get_should_quit_def log_def Let_def)
  have "checks ?t = []" "\<not> should_quit ?t"
    using Suc.prems by (simp_all add: get_should_quit_def log_def Let_def)
  from Suc.IH [OF this] obtain idle where
    r: "run env n ?t = (Running, ?t\<lparr>trace := trace ?t @ idle\<rparr>)" and i: "list_all is_idle idle"
    by blast
  let ?pre = "[Acquire ShouldQuitLock, Release ShouldQuitLock, Acquire ChecksLock,
               Release ChecksLock, Usleep IDLE_SLEEP_INTERVAL]"
  have "?t\<lparr>trace := trace ?t @ idle\<rparr> = s\<lparr>trace := trace s @ (?pre @ idle)\<rparr>"
    by (simp add: get_should_quit_def log_def Let_def)
  moreover have "list_all is_idle (?pre @ idle)" using i by simp
  ultimately show ?case using step r by metis
qed

text \<open>The definitions that evaluating the model in the concrete environment unfolds.\<close>

lemmas demo_simps = demo_state_def init_def log_def emit_def popped_def get_should_quit_def
  demo_env_def demo_env_404_def demo_env_offline_def demo_env_nopath_def demo_provider_def
  demo_join_def download_config_def download_config_try_def download_client_certificates_def
  download_client_certificates_try_def Let_def EEXIST_def IDLE_SLEEP_INTERVAL_def

lemmas demo_simps2 = demo_simps demo_env_badjson_def demo_env_readonly_def demo_env_nowrite_def
  demo_env_unprintable_def demo_env_badstatus_def demo_env_304_def
  demo_env_partial_save_def demo_state_cert_def

text \<open>A check and the loop only add to the record of calls.\<close>

lemma exec_check_appends:
  "exec_check env c s = (r, s1) \<Longrightarrow> \<exists>evs. trace s1 = trace s @ evs \<and> \<not> list_ex is_idle evs"
proof (cases c)
  case DownloadConfig
  assume "exec_check env c s = (r, s1)"
  with DownloadConfig show ?thesis
    by (auto simp: download_config_def download_config_try_def emit_def log_def Let_def
        split: prod.splits sum.splits option.splits if_splits)
next
  case DownloadClientCertificates
  assume "exec_check env c s = (r, s1)"
  with DownloadClientCertificates show ?thesis
    by (auto simp: download_client_certificates_def download_client_certificates_try_def
        emit_def log_def Let_def
        split: prod.splits sum.splits option.splits if_splits)
qed

lemma run_appends:
  "\<exists>later. trace (snd (run env n s)) = trace s @ later"
proof (induction n arbitrary: s)
  case 0
  show ?case by simp
next
  case (Suc n)
  show ?case
  proof (cases "should_quit s")
    case True
    then show ?thesis by (simp add: get_should_quit_def log_def Let_def)
  next
    case nq: False
    show ?thesis
    proof (cases "checks s")
      case Nil
      from run_idle [OF Nil nq, of env "Suc n"] show ?thesis by (auto simp del: run.simps)
    next
      case (Cons c rest)
      obtain r s1 where x: "exec_check env c (popped s rest) = (r, s1)" by (cases "exec_check env c (popped s rest)")
      from exec_check_appends [OF x] obtain evs where
        tr: "trace s1 = trace s @ [Acquire ShouldQuitLock, Release ShouldQuitLock, Acquire ChecksLock] @ evs"
        by (auto simp: popped_fields)
      show ?thesis
      proof (cases r)
        case (Inl e)
        with run_raised_step [OF nq Cons, of env e s1 n] x tr show ?thesis
          by (simp add: log_def del: run.simps)
      next
        case (Inr b)
        show ?thesis
        proof (cases b)
          case True
          with Inr x have "run env (Suc n) s = run env n (log (Release ChecksLock) s1)"
            using run_passed_step [OF nq Cons, of env s1 n] by simp
          moreover from Suc.IH [of "log (Release ChecksLock) s1"] obtain later where
            "trace (snd (run env n (log (Release ChecksLock) s1))) = trace (log (Release ChecksLock) s1) @ later" by blast
          ultimately show ?thesis using tr by (simp add: log_def del: run.simps)
        next
          case False
          let ?t = "log (Usleep IDLE_SLEEP_INTERVAL) (log (Release ChecksLock) (s1\<lparr>checks := []\<rparr>))"
          from False Inr x have "run env (Suc n) s = run env n ?t"
            using run_failed_step [OF nq Cons, of env s1 n] by simp
          moreover from Suc.IH [of ?t] obtain later where
            "trace (snd (run env n ?t)) = trace ?t @ later" by blast
          ultimately show ?thesis using tr by (simp add: log_def del: run.simps)
        qed
      qed
    qed
  qed
qed






section \<open>Preconditions\<close>

text \<open>
  Claim C7. A violated precondition fails at once: \<^verbatim>\<open>run_eip_setup_checks\<close> called with
  \<^verbatim>\<open>None\<close> (or with an empty, falsy object) raises an assertion error and leaves the
  bootstrapper as it was, so no queue is populated; the certificate check called without a
  provider configuration, or without an EIP configuration, raises an assertion error
  and leaves the state as it was: no request, no file operation and no signal.
\<close>

theorem precondition_failures:
  "run_eip_setup_checks s PyNone flag = (Inl (AssertionError ''We need a provider config!''), s)
   \<and> run_eip_setup_checks s (PyOther False ty) flag
       = (Inl (AssertionError ''We need a provider config!''), s)
   \<and> (provider_config s = None \<longrightarrow>
        download_client_certificates env s
          = (Inl (AssertionError ''We need a provider configuration!''), s))
   \<and> (provider_config s \<noteq> None \<and> eip_config s = None \<longrightarrow>
        download_client_certificates env s
          = (Inl (AssertionError ''We need an eip configuration!''), s))"
  by (auto simp: download_client_certificates_def)

theorem precondition_failures_witness:
  "provider_config (init [] :: (string list, string) bootstrapper) = None
   \<and> download_client_certificates demo_env (init [])
       = (Inl (AssertionError ''We need a provider configuration!''), init [])
   \<and> provider_config (demo_state [] False) \<noteq> None
   \<and> eip_config (demo_state [] False) = None
   \<and> download_client_certificates demo_env (demo_state [] False)
       = (Inl (AssertionError ''We need an eip configuration!''), demo_state [] False)
   \<and> checks (snd (run_eip_setup_checks (init [] :: (string list, string) bootstrapper)
                    PyNone False)) = []"
  using precondition_failures [of "init []" False "''''" demo_env]
        precondition_failures [of "demo_state [] False" False "''''" demo_env]
  by (simp add: demo_state_def init_def log_def)

section \<open>The configuration check\<close>

text \<open>
  Claim C2. When \<^verbatim>\<open>_download_if_needed\<close> is set and the file
  \<^verbatim>\<open><prefix>/leap/providers/<domain>/eip-service.json\<close> exists, the configuration
  check returns \<^verbatim>\<open>True\<close>, and all it does is to set \<^verbatim>\<open>_eip_config\<close> to a new
  object and to emit \<^verbatim>\<open>{passed: True}\<close> on \<^verbatim>\<open>download_config\<close>: the world is
  untouched and no HTTP request is among the calls made.
\<close>

theorem config_skip_if_present:
  assumes "provider_config s = Some pc"
    and "download_if_needed s"
    and "path_exists env (world s)
           (path_join env [get_path_prefix env (new_EIPConfig env), ''leap'', ''providers'',
                           get_domain pc, ''eip-service.json''])"
  shows "download_config env s =
           (Inr True,
            s\<lparr>eip_config := Some (new_EIPConfig env),
              trace := trace s @ [Emit download_config_signal \<lparr>passed = True, error = ''''\<rparr>]\<rparr>)
         \<and> \<not> list_ex is_http (drop (length (trace s)) (trace (snd (download_config env s))))"
  using assms by (simp add: download_config_def emit_def log_def Let_def)

theorem config_skip_if_present_witness:
  "provider_config (demo_state [''/c/leap/providers/d.org/eip-service.json''] True)
     = Some demo_provider
   \<and> download_if_needed (demo_state [''/c/leap/providers/d.org/eip-service.json''] True)
   \<and> path_exists demo_env
        (world (demo_state [''/c/leap/providers/d.org/eip-service.json''] True))
        (path_join demo_env [get_path_prefix demo_env (new_EIPConfig demo_env), ''leap'',
                             ''providers'', get_domain demo_provider, ''eip-service.json''])
   \<and> fst (download_config demo_env
             (demo_state [''/c/leap/providers/d.org/eip-service.json''] True)) = Inr True"
proof -
  let ?s = "demo_state [''/c/leap/providers/d.org/eip-service.json''] True"
  have a: "provider_config ?s = Some demo_provider"
    by (simp add: demo_state_def init_def log_def)
  have b: "download_if_needed ?s"
    by (simp add: demo_state_def init_def log_def)
  have c: "path_exists demo_env (world ?s)
             (path_join demo_env [get_path_prefix demo_env (new_EIPConfig demo_env), ''leap'',
                                  ''providers'', get_domain demo_provider, ''eip-service.json''])"
    by (simp add: demo_state_def init_def log_def demo_env_def demo_join_def demo_provider_def)
  show ?thesis using config_skip_if_present [OF a b c] a b c by simp
qed

section \<open>The worker loop\<close>

text \<open>
  Claim C1. When the check popped from the head of the queue returns \<^verbatim>\<open>False\<close>, the
  loop clears the queue and goes on running without executing anything else: however
  many iterations follow, the state is the one the failed check left, with an empty
  queue and with mutex operations and sleeps as the only further events. In particular,
  when the configuration check fails, no emission of \<^verbatim>\<open>download_client_certificate\<close>
  occurs in that run.
\<close>

theorem halt_on_failure:
  assumes "\<not> should_quit s" and "checks s = c # rest"
    and "exec_check env c (popped s rest) = (Inr False, s1)"
  shows "(\<exists>idle. run env (Suc n) s = (Running, s1\<lparr>checks := [], trace := trace s1 @ idle\<rparr>)
                \<and> list_all is_idle idle)
         \<and> (c = DownloadConfig \<longrightarrow>
              \<not> list_ex (is_emit_on download_client_certificate_signal)
                  (drop (length (trace s)) (trace (snd (run env (Suc n) s)))))"
proof -
  let ?t = "log (Usleep IDLE_SLEEP_INTERVAL) (log (Release ChecksLock) (s1\<lparr>checks := []\<rparr>))"
  have fr: "should_quit s1 = should_quit s"
    using exec_check_frame [OF assms(3)] by (simp add: popped_fields)
  have "checks ?t = []" "\<not> should_quit ?t"
    using assms(1) fr by (simp_all add: log_def)
  from run_idle [OF this, of env n] obtain idle where
    r: "run env n ?t = (Running, ?t\<lparr>trace := trace ?t @ idle\<rparr>)" and i: "list_all is_idle idle"
    by blast
  let ?idle = "[Release ChecksLock, Usleep IDLE_SLEEP_INTERVAL] @ idle"
  have eq: "?t\<lparr>trace := trace ?t @ idle\<rparr> = s1\<lparr>checks := [], trace := trace s1 @ ?idle\<rparr>"
    by (simp add: log_def)
  have run_eq: "run env (Suc n) s = (Running, s1\<lparr>checks := [], trace := trace s1 @ ?idle\<rparr>)"
    using run_failed_step [OF assms, of n] r eq by simp
  have idle: "list_all is_idle ?idle" using i by simp
  have first: "\<exists>idle. run env (Suc n) s = (Running, s1\<lparr>checks := [], trace := trace s1 @ idle\<rparr>)
                \<and> list_all is_idle idle"
    using run_eq idle by blast
  have second: "\<not> list_ex (is_emit_on download_client_certificate_signal)
                  (drop (length (trace s)) (trace (snd (run env (Suc n) s))))"
    if c: "c = DownloadConfig"
  proof -
    from exec_check_returns [OF assms(3)] c obtain evs e where
      tr: "trace s1 = trace (popped s rest) @ evs
             @ [Emit download_config_signal \<lparr>passed = False, error = e\<rparr>]"
      and ne: "\<not> list_ex is_emit evs" by auto
    have no_emit: "\<not> list_ex (is_emit_on sig) xs" if "\<not> list_ex is_emit xs" for sig xs
      using that by (induction xs) (auto elim: is_emit.elims is_emit_on.elims)
    have no_idle: "\<not> list_ex (is_emit_on sig) xs" if "list_all is_idle xs" for sig xs
      using that by (induction xs) (auto elim: is_idle.elims is_emit_on.elims)
    have "drop (length (trace s)) (trace (snd (run env (Suc n) s)))
            = [Acquire ShouldQuitLock, Release ShouldQuitLock, Acquire ChecksLock] @ evs
              @ [Emit download_config_signal \<lparr>passed = False, error = e\<rparr>] @ ?idle"
      using tr by (simp only: run_eq) (simp add: popped_fields)
    then show ?thesis
      using no_emit [OF ne, of download_client_certificate_signal]
            no_idle [OF idle, of download_client_certificate_signal]
      by (auto simp add: list_ex_iff simp del: run.simps)
  qed
  show ?thesis using first second by blast
qed

theorem halt_on_failure_witness:
  "\<not> should_quit (demo_state [] False)
   \<and> checks (demo_state [] False) = [DownloadConfig, DownloadClientCertificates]
   \<and> fst (exec_check demo_env_404 DownloadConfig
            (popped (demo_state [] False) [DownloadClientCertificates])) = Inr False
   \<and> \<not> list_ex (is_emit_on download_client_certificate_signal)
         (drop (length (trace (demo_state [] False)))
            (trace (snd (run demo_env_404 (Suc 2) (demo_state [] False)))))"
proof -
  let ?s = "demo_state [] False"
  let ?x = "exec_check demo_env_404 DownloadConfig (popped ?s [DownloadClientCertificates])"
  have a: "\<not> should_quit ?s" by (simp add: demo_simps)
  have b: "checks ?s = [DownloadConfig, DownloadClientCertificates]" by (simp add: demo_simps)
  have f: "fst ?x = Inr False" by (simp add: demo_simps)
  then have c: "?x = (Inr False, snd ?x)" by (simp add: prod_eq_iff)
  show ?thesis using halt_on_failure [OF a b c, of 2] a b f by blast
qed

text \<open>
  Claim C5, as amended. A check that the loop executes and that returns has delivered
  exactly one notification, on its own signal and carrying the returned
  \<^verbatim>\<open>passed\<close> value: the emission is the last thing the check does and nothing before
  it in the check is an emission; the loop then goes on from the state the check left.
  A check that the loop executes and that raises has delivered no notification, and
  the loop ends with that exception. In both cases the rest of the queue is untouched
  by the check, and whatever the run does afterwards comes after the events of the
  check in the record of calls.
\<close>

theorem one_notification_per_step:
  assumes "\<not> should_quit s" and "checks s = c # rest"
    and "exec_check env c (popped s rest) = (r, s1)"
  shows "(r = Inr b \<longrightarrow>
            (\<exists>evs m. trace s1 = trace (popped s rest) @ evs
                         @ [Emit (signal_of c) \<lparr>passed = b, error = m\<rparr>]
                     \<and> \<not> list_ex is_emit evs)
            \<and> run env (Suc n) s =
                run env n (if b then log (Release ChecksLock) s1
                           else log (Usleep IDLE_SLEEP_INTERVAL)
                                  (log (Release ChecksLock) (s1\<lparr>checks := []\<rparr>))))
         \<and> (r = Inl e \<longrightarrow>
              (\<exists>evs. trace s1 = trace (popped s rest) @ evs \<and> \<not> list_ex is_emit evs)
              \<and> run env (Suc n) s = (Raised e, log (Release ChecksLock) s1))
         \<and> checks s1 = rest
         \<and> (\<exists>later. trace (snd (run env (Suc n) s)) = trace s1 @ later)"
proof -
  have ret: "(\<exists>evs m. trace s1 = trace (popped s rest) @ evs
                         @ [Emit (signal_of c) \<lparr>passed = b, error = m\<rparr>]
                     \<and> \<not> list_ex is_emit evs)
            \<and> run env (Suc n) s =
                run env n (if b then log (Release ChecksLock) s1
                           else log (Usleep IDLE_SLEEP_INTERVAL)
                                  (log (Release ChecksLock) (s1\<lparr>checks := []\<rparr>)))"
    if r: "r = Inr b"
  proof -
    have x: "exec_check env c (popped s rest) = (Inr b, s1)"
      using assms(3) r by simp
    have one: "\<exists>evs m. trace s1 = trace (popped s rest) @ evs
                         @ [Emit (signal_of c) \<lparr>passed = b, error = m\<rparr>]
                     \<and> \<not> list_ex is_emit evs"
      using exec_check_returns [OF x] .
    have two: "run env (Suc n) s =
                run env n (if b then log (Release ChecksLock) s1
                           else log (Usleep IDLE_SLEEP_INTERVAL)
                                  (log (Release ChecksLock) (s1\<lparr>checks := []\<rparr>)))"
    proof (cases b)
      case True
      then show ?thesis using run_passed_step [OF assms(1,2), of env s1 n] x by simp
    next
      case False
      then show ?thesis using run_failed_step [OF assms(1,2), of env s1 n] x by simp
    qed
    show ?thesis using one two by blast
  qed
  have rai: "(\<exists>evs. trace s1 = trace (popped s rest) @ evs \<and> \<not> list_ex is_emit evs)
              \<and> run env (Suc n) s = (Raised e, log (Release ChecksLock) s1)"
    if r: "r = Inl e"
  proof -
    have x: "exec_check env c (popped s rest) = (Inl e, s1)"
      using assms(3) r by simp
    show ?thesis
      using exec_check_raises [OF x] run_raised_step [OF assms(1,2) x, of n] by blast
  qed
  have fr: "checks s1 = rest"
    using exec_check_frame [OF assms(3)] by (simp add: popped_fields)
  from run_appends [of env "Suc n" s] obtain all_later where
    a: "trace (snd (run env (Suc n) s)) = trace s @ all_later" by blast
  have after: "\<exists>later. trace (snd (run env (Suc n) s)) = trace s1 @ later"
  proof (cases r)
    case (Inl e')
    have x: "exec_check env c (popped s rest) = (Inl e', s1)"
      using assms(3) Inl by simp
    show ?thesis
      using run_raised_step [OF assms(1,2) x, of n] by (simp add: log_def del: run.simps)
  next
    case (Inr b')
    have x: "exec_check env c (popped s rest) = (Inr b', s1)"
      using assms(3) Inr by simp
    let ?t = "if b' then log (Release ChecksLock) s1
              else log (Usleep IDLE_SLEEP_INTERVAL)
                     (log (Release ChecksLock) (s1\<lparr>checks := []\<rparr>))"
    have step: "run env (Suc n) s = run env n ?t"
    proof (cases b')
      case True
      then show ?thesis using run_passed_step [OF assms(1,2), of env s1 n] x by simp
    next
      case False
      then show ?thesis using run_failed_step [OF assms(1,2), of env s1 n] x by simp
    qed
    from run_appends [of env n ?t] obtain later where
      l: "trace (snd (run env n ?t)) = trace ?t @ later" by blast
    have "\<exists>pre. trace ?t = trace s1 @ pre" by (simp add: log_def)
    then obtain pre where "trace ?t = trace s1 @ pre" by blast
    with l step show ?thesis by (simp del: run.simps)
  qed
  show ?thesis using ret rai fr after by blast
qed

theorem one_notification_per_step_witness:
  "\<not> should_quit (demo_state [] False)
   \<and> checks (demo_state [] False) = [DownloadConfig, DownloadClientCertificates]
   \<and> fst (exec_check demo_env DownloadConfig
            (popped (demo_state [] False) [DownloadClientCertificates])) = Inr True
   \<and> checks (snd (exec_check demo_env DownloadConfig
            (popped (demo_state [] False) [DownloadClientCertificates])))
       = [DownloadClientCertificates]
   \<and> checks (snd (run demo_env_nopath (Suc 0) (demo_state [] False)))
       = [DownloadClientCertificates]
   \<and> fst (exec_check demo_env_nopath DownloadClientCertificates
            (popped (snd (run demo_env_nopath (Suc 0) (demo_state [] False))) []))
       = Inl (OtherException (Inr ''no path''))
   \<and> fst (run demo_env_nopath (Suc 0)
            (snd (run demo_env_nopath (Suc 0) (demo_state [] False))))
       = Raised (OtherException (Inr ''no path''))"
proof -
  let ?s = "demo_state [] False"
  let ?x = "exec_check demo_env DownloadConfig (popped ?s [DownloadClientCertificates])"
  let ?t = "snd (run demo_env_nopath (Suc 0) (demo_state [] False))"
  let ?y = "exec_check demo_env_nopath DownloadClientCertificates (popped ?t [])"
  have a: "\<not> should_quit ?s" by (simp add: demo_simps)
  have b: "checks ?s = [DownloadConfig, DownloadClientCertificates]" by (simp add: demo_simps)
  have f: "fst ?x = Inr True" by (simp add: demo_simps)
  have c: "?x = (fst ?x, snd ?x)" by simp
  have a': "\<not> should_quit ?t" by (simp add: demo_simps2)
  have b': "checks ?t = [DownloadClientCertificates]" by (simp add: demo_simps2)
  have f': "fst ?y = Inl (OtherException (Inr ''no path''))" by (simp add: demo_simps2)
  have c': "?y = (fst ?y, snd ?y)" by simp
  have 1: "checks (snd ?x) = [DownloadClientCertificates]"
    using one_notification_per_step [OF a b c, where n = 0] by blast
  have "run demo_env_nopath (Suc 0) ?t
          = (Raised (OtherException (Inr ''no path'')), log (Release ChecksLock) (snd ?y))"
    using one_notification_per_step [OF a' b' c', where n = 0
          and e = "OtherException (Inr ''no path'')"]
      f' by blast
  then have 2: "fst (run demo_env_nopath (Suc 0) ?t) = Raised (OtherException (Inr ''no path''))"
    by (simp del: run.simps)
  show ?thesis using a b f 1 b' f' 2 by blast
qed

text \<open>
  Claim C5 as stated (every executed step delivers exactly one notification) fails:
  in a run where the configuration check passes and \<^verbatim>\<open>get_client_cert_path\<close> raises,
  the loop executes both checks and ends with the exception of the second, and the
  only emission of the run is the one of the configuration check.
\<close>

theorem executed_check_without_notification_counterexample:
  "fst (run demo_env_nopath (Suc (Suc 0)) (demo_state [] False))
     = Raised (OtherException (Inr ''no path''))
   \<and> filter is_emit (trace (snd (run demo_env_nopath (Suc (Suc 0)) (demo_state [] False))))
       = [Emit download_config_signal \<lparr>passed = True, error = ''''\<rparr>]"
  by (simp add: demo_simps2)

text \<open>
  Claim C6. Every call of \<^verbatim>\<open>run_eip_setup_checks\<close> with a \<^verbatim>\<open>ProviderConfig\<close> succeeds
  and replaces the queue, whatever it held and whatever the other attributes are, by
  the configuration check followed by the certificate check. On the state \<open>s\<close> that
  the call leaves, a loop that has not been told to quit takes the checks from the
  head: the configuration check is the first thing it executes, whatever that check
  does; when it has returned \<^verbatim>\<open>True\<close> the certificate check runs in the next
  iteration, and every event of the certificate check comes after the emission of the
  configuration check in the record of calls. After the two iterations the queue is
  empty.
\<close>

theorem fifo_order:
  "run_eip_setup_checks s0 (PyProviderConfig pc) flag
     = (Inr (),
        s0\<lparr>checks := [DownloadConfig, DownloadClientCertificates],
           provider_config := Some pc, download_if_needed := flag,
           trace := trace s0 @ [Acquire ChecksLock, Release ChecksLock]\<rparr>)
   \<and> checks (snd (run_eip_setup_checks s0 (PyProviderConfig pc) flag))
       = [DownloadConfig, DownloadClientCertificates]
   \<and> (s = snd (run_eip_setup_checks s0 (PyProviderConfig pc) flag)
        \<and> \<not> should_quit s0
        \<and> download_config env (popped s [DownloadClientCertificates]) = (r, s1) \<longrightarrow>
        (\<exists>later. trace (snd (run env (Suc n) s)) = trace s1 @ later))
   \<and> (s = snd (run_eip_setup_checks s0 (PyProviderConfig pc) flag)
        \<and> \<not> should_quit s0
        \<and> download_config env (popped s [DownloadClientCertificates]) = (Inr True, s1)
        \<and> download_client_certificates env (popped (log (Release ChecksLock) s1) [])
             = (Inr b, s2) \<longrightarrow>
        (\<exists>evs1 e1 evs2 e2.
            trace s2 = trace s
              @ [Acquire ShouldQuitLock, Release ShouldQuitLock, Acquire ChecksLock]
              @ evs1 @ [Emit download_config_signal \<lparr>passed = True, error = e1\<rparr>]
              @ [Release ChecksLock,
                 Acquire ShouldQuitLock, Release ShouldQuitLock, Acquire ChecksLock]
              @ evs2 @ [Emit download_client_certificate_signal \<lparr>passed = b, error = e2\<rparr>]
            \<and> \<not> list_ex is_emit evs1 \<and> \<not> list_ex is_emit evs2)
        \<and> checks s2 = []
        \<and> run env (Suc (Suc n)) s =
            run env n (if b then log (Release ChecksLock) s2
                       else log (Usleep IDLE_SLEEP_INTERVAL)
                              (log (Release ChecksLock) (s2\<lparr>checks := []\<rparr>))))"
proof -
  let ?s = "snd (run_eip_setup_checks s0 (PyProviderConfig pc) flag)"
  have one: "run_eip_setup_checks s0 (PyProviderConfig pc) flag
     = (Inr (),
        s0\<lparr>checks := [DownloadConfig, DownloadClientCertificates],
           provider_config := Some pc, download_if_needed := flag,
           trace := trace s0 @ [Acquire ChecksLock, Release ChecksLock]\<rparr>)"
    by (simp add: Let_def log_def)
  have two: "checks ?s = [DownloadConfig, DownloadClientCertificates]"
    by (simp add: Let_def)
  have head: "\<exists>later. trace (snd (run env (Suc n) ?s)) = trace s1 @ later"
    if nq0: "\<not> should_quit s0"
      and x0: "download_config env (popped ?s [DownloadClientCertificates]) = (r, s1)"
  proof -
    have nq: "\<not> should_quit ?s"
      using nq0 by (simp add: Let_def log_def)
    have x: "exec_check env DownloadConfig (popped ?s [DownloadClientCertificates]) = (r, s1)"
      using x0 by simp
    show ?thesis
    proof (cases r)
      case (Inl e)
      with run_raised_step [OF nq two, of env e s1 n] x show ?thesis
        by (simp add: log_def del: run.simps)
    next
      case (Inr b')
      let ?t = "if b' then log (Release ChecksLock) s1
                else log (Usleep IDLE_SLEEP_INTERVAL)
                       (log (Release ChecksLock) (s1\<lparr>checks := []\<rparr>))"
      have step: "run env (Suc n) ?s = run env n ?t"
      proof (cases b')
        case True
        then show ?thesis using run_passed_step [OF nq two, of env s1 n] x Inr by simp
      next
        case False
        then show ?thesis using run_failed_step [OF nq two, of env s1 n] x Inr by simp
      qed
      from run_appends [of env n ?t] obtain later where
        l: "trace (snd (run env n ?t)) = trace ?t @ later" by blast
      have "\<exists>pre. trace ?t = trace s1 @ pre" by (simp add: log_def)
      then obtain pre where "trace ?t = trace s1 @ pre" by blast
      with l step show ?thesis by (simp del: run.simps)
    qed
  qed
  have both: "(\<exists>evs1 e1 evs2 e2.
            trace s2 = trace ?s
              @ [Acquire ShouldQuitLock, Release ShouldQuitLock, Acquire ChecksLock]
              @ evs1 @ [Emit download_config_signal \<lparr>passed = True, error = e1\<rparr>]
              @ [Release ChecksLock,
                 Acquire ShouldQuitLock, Release ShouldQuitLock, Acquire ChecksLock]
              @ evs2 @ [Emit download_client_certificate_signal \<lparr>passed = b, error = e2\<rparr>]
            \<and> \<not> list_ex is_emit evs1 \<and> \<not> list_ex is_emit evs2)
        \<and> checks s2 = []
        \<and> run env (Suc (Suc n)) ?s =
            run env n (if b then log (Release ChecksLock) s2
                       else log (Usleep IDLE_SLEEP_INTERVAL)
                              (log (Release ChecksLock) (s2\<lparr>checks := []\<rparr>)))"
    if nq0: "\<not> should_quit s0"
      and c1: "download_config env (popped ?s [DownloadClientCertificates]) = (Inr True, s1)"
      and c2: "download_client_certificates env (popped (log (Release ChecksLock) s1) [])
                 = (Inr b, s2)"
  proof -
    have nq: "\<not> should_quit ?s"
      using nq0 by (simp add: Let_def log_def)
    let ?t = "log (Release ChecksLock) s1"
    have x1: "exec_check env DownloadConfig (popped ?s [DownloadClientCertificates])
                = (Inr True, s1)"
      using c1 by simp
    have step1: "run env (Suc (Suc n)) ?s = run env (Suc n) ?t"
      using run_passed_step [OF nq two x1] .
    have fr1: "checks s1 = [DownloadClientCertificates]" "should_quit s1 = should_quit ?s"
      using exec_check_frame [OF x1] by (simp_all add: popped_fields)
    have nq_t: "\<not> should_quit ?t" and ch_t: "checks ?t = [DownloadClientCertificates]"
      using fr1 nq by (simp_all add: log_def)
    have x2: "exec_check env DownloadClientCertificates (popped ?t []) = (Inr b, s2)"
      using c2 by simp
    have four: "checks s2 = []"
      using exec_check_frame [OF x2] by (simp add: popped_fields)
    have step2: "run env (Suc n) ?t =
               run env n (if b then log (Release ChecksLock) s2
                          else log (Usleep IDLE_SLEEP_INTERVAL)
                                 (log (Release ChecksLock) (s2\<lparr>checks := []\<rparr>)))"
    proof (cases b)
      case True
      then show ?thesis using run_passed_step [OF nq_t ch_t, of env s2 n] x2 by simp
    next
      case False
      then show ?thesis using run_failed_step [OF nq_t ch_t, of env s2 n] x2 by simp
    qed
    from download_config_returns [OF c1] obtain evs1 e1 where
      t1: "trace s1 = trace (popped ?s [DownloadClientCertificates]) @ evs1
             @ [Emit download_config_signal \<lparr>passed = True, error = e1\<rparr>]"
      and n1: "\<not> list_ex is_emit evs1" by blast
    from cert_returns [OF c2] obtain evs2 e2 where
      t2: "trace s2 = trace (popped ?t []) @ evs2
             @ [Emit download_client_certificate_signal \<lparr>passed = b, error = e2\<rparr>]"
      and n2: "\<not> list_ex is_emit evs2" by blast
    have "trace s2 = trace ?s
                   @ [Acquire ShouldQuitLock, Release ShouldQuitLock, Acquire ChecksLock]
                   @ evs1 @ [Emit download_config_signal \<lparr>passed = True, error = e1\<rparr>]
                   @ [Release ChecksLock,
                      Acquire ShouldQuitLock, Release ShouldQuitLock, Acquire ChecksLock]
                   @ evs2
                   @ [Emit download_client_certificate_signal \<lparr>passed = b, error = e2\<rparr>]"
      using t1 t2 by (simp add: popped_fields log_def)
    then have three: "\<exists>evs1 e1 evs2 e2.
            trace s2 = trace ?s
              @ [Acquire ShouldQuitLock, Release ShouldQuitLock, Acquire ChecksLock]
              @ evs1 @ [Emit download_config_signal \<lparr>passed = True, error = e1\<rparr>]
              @ [Release ChecksLock,
                 Acquire ShouldQuitLock, Release ShouldQuitLock, Acquire ChecksLock]
              @ evs2 @ [Emit download_client_certificate_signal \<lparr>passed = b, error = e2\<rparr>]
            \<and> \<not> list_ex is_emit evs1 \<and> \<not> list_ex is_emit evs2"
      using n1 n2 by blast
    show ?thesis using three four step1 step2 by (simp del: run.simps)
  qed
  show ?thesis using one two head both by blast
qed

theorem fifo_order_witness:
  "\<not> should_quit (init [] :: (string list, string) bootstrapper)
   \<and> fst (download_config demo_env (popped (demo_state [] False) [DownloadClientCertificates]))
       = Inr True
   \<and> fst (download_client_certificates demo_env
        (popped (log (Release ChecksLock)
           (snd (download_config demo_env
                  (popped (demo_state [] False) [DownloadClientCertificates])))) [])) = Inr True
   \<and> checks (demo_state [] False) = [DownloadConfig, DownloadClientCertificates]
   \<and> run demo_env (Suc (Suc 0)) (demo_state [] False)
       = (Running,
          log (Release ChecksLock) (snd (download_client_certificates demo_env
            (popped (log (Release ChecksLock)
               (snd (download_config demo_env
                  (popped (demo_state [] False) [DownloadClientCertificates])))) []))))"
proof -
  let ?i = "init [] :: (string list, string) bootstrapper"
  let ?s = "demo_state [] False"
  let ?x = "download_config demo_env (popped ?s [DownloadClientCertificates])"
  let ?y = "download_client_certificates demo_env (popped (log (Release ChecksLock) (snd ?x)) [])"
  have a: "?s = snd (run_eip_setup_checks ?i (PyProviderConfig demo_provider) False)"
    unfolding demo_state_def by (rule refl)
  have b: "\<not> should_quit ?i" by (simp add: init_def)
  have fx: "fst ?x = Inr True" by (simp add: demo_simps)
  then have c: "?x = (Inr True, snd ?x)" by (simp add: prod_eq_iff)
  have fy: "fst ?y = Inr True" by (simp add: demo_simps)
  then have d: "?y = (Inr True, snd ?y)" by (simp add: prod_eq_iff)
  note r = fifo_order [where ?s0.0 = ?i and pc = demo_provider and flag = False and s = ?s
      and env = demo_env and r = "Inr True" and ?s1.0 = "snd ?x" and n = 0 and b = True
      and ?s2.0 = "snd ?y"]
  have e: "checks ?s = [DownloadConfig, DownloadClientCertificates]"
    unfolding demo_state_def using r by blast
  have "run demo_env (Suc (Suc 0)) ?s
          = run demo_env 0 (if True then log (Release ChecksLock) (snd ?y)
                            else log (Usleep IDLE_SLEEP_INTERVAL)
                                   (log (Release ChecksLock) ((snd ?y)\<lparr>checks := []\<rparr>)))"
    using r a b c d by blast
  then have f: "run demo_env (Suc (Suc 0)) ?s = (Running, log (Release ChecksLock) (snd ?y))"
    by (simp only: if_True run.simps(1))
  show ?thesis using b fx fy e f by blast
qed




section \<open>Exceptions inside the checks\<close>

text \<open>
  Claim C3, as amended. In the certificate check, once the provider configuration, the
  EIP configuration and the destination path are there and the check is not skipped,
  an exception \<open>e\<close> raised inside the \<^verbatim>\<open>try\<close> is caught: an exception of the HTTP
  request, of \<^verbatim>\<open>raise_for_status\<close>, of \<^verbatim>\<open>os.makedirs\<close> (unless it is an
  \<^verbatim>\<open>OSError\<close> with \<^verbatim>\<open>errno == EEXIST\<close> on an existing directory) or of the write of
  the file. When \<^verbatim>\<open>"%s" % (e,)\<close> yields a text, the check emits
  \<^verbatim>\<open>{passed: False, error: <text>}\<close> as its last event and returns \<^verbatim>\<open>False\<close>; when
  that formatting raises, the check raises what the formatting raised and emits
  nothing. An \<^verbatim>\<open>EEXIST\<close> on an existing directory is passed over: the file is written
  and, when the write succeeds, the check emits \<^verbatim>\<open>{passed: True}\<close> and returns
  \<^verbatim>\<open>True\<close>. An exception of \<^verbatim>\<open>get_client_cert_path\<close> is not covered: that call
  stands before the \<^verbatim>\<open>try\<close>.
\<close>

theorem cert_exceptions_reported:
  assumes "provider_config s = Some pc"
    and "eip_config s = Some cfg"
    and "get_client_cert_path env cfg pc True = Inr p"
    and "\<not> (download_if_needed s \<and> path_exists env (world s) p)"
    and "url = get_api_uri pc @ ''/'' @ get_api_version pc @ ''/cert/''"
    and "verify = get_ca_cert_path pc"
    and "d = path_dirname env p"
    and "failed = (\<lambda>m. Emit download_client_certificate_signal \<lparr>passed = False, error = m\<rparr>)"
  shows "(session_get env (world s) url verify = (Inl e, w1) \<longrightarrow>
            download_client_certificates env s
              = (case str e of
                   Inl e' \<Rightarrow>
                     (Inl e', s\<lparr>world := w1, trace := trace s @ [HttpGet url verify]\<rparr>)
                 | Inr m \<Rightarrow>
                     (Inr False,
                      s\<lparr>world := w1, trace := trace s @ [HttpGet url verify, failed m]\<rparr>)))
       \<and> (session_get env (world s) url verify = (Inr res, w1)
            \<and> raise_for_status env res = Some e \<longrightarrow>
            download_client_certificates env s
              = (case str e of
                   Inl e' \<Rightarrow>
                     (Inl e', s\<lparr>world := w1, trace := trace s @ [HttpGet url verify]\<rparr>)
                 | Inr m \<Rightarrow>
                     (Inr False,
                      s\<lparr>world := w1, trace := trace s @ [HttpGet url verify, failed m]\<rparr>)))
       \<and> (session_get env (world s) url verify = (Inr res, w1)
            \<and> raise_for_status env res = None
            \<and> makedirs env w1 d = (Some e, w2)
            \<and> \<not> ((\<exists>t. e = OSError EEXIST t) \<and> path_isdir env w2 d) \<longrightarrow>
            download_client_certificates env s
              = (case str e of
                   Inl e' \<Rightarrow>
                     (Inl e',
                      s\<lparr>world := w2, trace := trace s @ [HttpGet url verify, MakeDirs d]\<rparr>)
                 | Inr m \<Rightarrow>
                     (Inr False,
                      s\<lparr>world := w2,
                        trace := trace s @ [HttpGet url verify, MakeDirs d, failed m]\<rparr>)))
       \<and> (session_get env (world s) url verify = (Inr res, w1)
            \<and> raise_for_status env res = None
            \<and> (makedirs env w1 d = (None, w2)
                 \<or> makedirs env w1 d = (Some (OSError EEXIST t), w2) \<and> path_isdir env w2 d)
            \<and> write_file env w2 p (content res) = (Some e, w3) \<longrightarrow>
            download_client_certificates env s
              = (case str e of
                   Inl e' \<Rightarrow>
                     (Inl e',
                      s\<lparr>world := w3,
                        trace := trace s @ [HttpGet url verify, MakeDirs d,
                                            WriteFile p (content res)]\<rparr>)
                 | Inr m \<Rightarrow>
                     (Inr False,
                      s\<lparr>world := w3,
                        trace := trace s @ [HttpGet url verify, MakeDirs d,
                                            WriteFile p (content res), failed m]\<rparr>)))
       \<and> (session_get env (world s) url verify = (Inr res, w1)
            \<and> raise_for_status env res = None
            \<and> makedirs env w1 d = (Some (OSError EEXIST t), w2) \<and> path_isdir env w2 d
            \<and> write_file env w2 p (content res) = (None, w3) \<longrightarrow>
            download_client_certificates env s
              = (Inr True,
                 s\<lparr>world := w3,
                   trace := trace s @ [HttpGet url verify, MakeDirs d, WriteFile p (content res),
                      Emit download_client_certificate_signal \<lparr>passed = True, error = ''''\<rparr>]\<rparr>))"
proof -
  have h: "makedirs_handler env w2 d (Some e) = Some e"
    if "\<not> ((\<exists>t. e = OSError EEXIST t) \<and> path_isdir env w2 d)"
    using that by (cases e) auto
  show ?thesis
    using assms h
    by (auto simp: download_client_certificates_def download_client_certificates_try_def
        emit_def log_def Let_def split: sum.splits)
qed

theorem cert_exceptions_reported_witness:
  "fst (download_client_certificates demo_env_offline (demo_state_cert [] False)) = Inr False
   \<and> last (trace (snd (download_client_certificates demo_env_offline
                         (demo_state_cert [] False))))
       = Emit download_client_certificate_signal \<lparr>passed = False, error = ''timeout''\<rparr>
   \<and> fst (download_client_certificates demo_env_404 (demo_state_cert [] False)) = Inr False
   \<and> fst (download_client_certificates demo_env_readonly (demo_state_cert [] False))
       = Inr False
   \<and> fst (download_client_certificates demo_env_nowrite (demo_state_cert [] False))
       = Inr False
   \<and> fst (download_client_certificates demo_env (demo_state_cert [''/c/k''] False))
       = Inr True
   \<and> fst (download_client_certificates demo_env_unprintable (demo_state_cert [] False))
       = Inl (OtherException (Inr ''UnicodeEncodeError''))"
proof -
  let ?S = "demo_state_cert [] False"
  let ?T = "demo_state_cert [''/c/k''] False"
  let ?url = "get_api_uri demo_provider @ ''/'' @ get_api_version demo_provider @ ''/cert/''"
  let ?v = "get_ca_cert_path demo_provider"
  let ?w = "[''/c/leap/providers/d.org/eip-service.json'']"
  let ?ok = "\<lparr>status_code = 200, content = ''x''\<rparr>"
  have S: "provider_config ?S = Some demo_provider" "eip_config ?S = Some ''x''"
    "\<not> (download_if_needed ?S \<and> path_exists env (world ?S) ''/c/k/o.pem'')" for env
    by (simp_all add: demo_simps2)
  have T: "provider_config ?T = Some demo_provider" "eip_config ?T = Some ''x''"
    "\<not> (download_if_needed ?T \<and> path_exists env (world ?T) ''/c/k/o.pem'')" for env
    by (simp_all add: demo_simps2)
  have p: "get_client_cert_path demo_env_offline ''x'' demo_provider True = Inr ''/c/k/o.pem''"
    "get_client_cert_path demo_env_404 ''x'' demo_provider True = Inr ''/c/k/o.pem''"
    "get_client_cert_path demo_env_readonly ''x'' demo_provider True = Inr ''/c/k/o.pem''"
    "get_client_cert_path demo_env_nowrite ''x'' demo_provider True = Inr ''/c/k/o.pem''"
    "get_client_cert_path demo_env ''x'' demo_provider True = Inr ''/c/k/o.pem''"
    "get_client_cert_path demo_env_unprintable ''x'' demo_provider True = Inr ''/c/k/o.pem''"
    by (simp_all add: demo_simps2)
  have W: "world ?S = ?w" "world ?T = [''/c/leap/providers/d.org/eip-service.json'', ''/c/k'']"
    by (simp_all add: demo_simps2)
  note demo_envs = demo_env_def demo_env_offline_def demo_env_404_def demo_env_readonly_def
    demo_env_nowrite_def demo_env_unprintable_def demo_provider_def EEXIST_def
  have 1: "download_client_certificates demo_env_offline ?S
             = (Inr False, ?S\<lparr>world := ?w, trace := trace ?S @ [HttpGet ?url ?v,
                  Emit download_client_certificate_signal
                    \<lparr>passed = False, error = ''timeout''\<rparr>]\<rparr>)"
    using cert_exceptions_reported [OF S(1,2) p(1) S(3) refl refl refl refl,
        where e = "OtherException (Inr ''timeout'')" and ?w1.0 = ?w]
    by (simp add: W demo_envs)
  have 2: "download_client_certificates demo_env_404 ?S
             = (Inr False, ?S\<lparr>world := ?w, trace := trace ?S @ [HttpGet ?url ?v,
                  Emit download_client_certificate_signal
                    \<lparr>passed = False, error = ''HTTPError''\<rparr>]\<rparr>)"
    using cert_exceptions_reported [OF S(1,2) p(2) S(3) refl refl refl refl,
        where e = "OtherException (Inr ''HTTPError'')" and ?w1.0 = ?w
          and res = "\<lparr>status_code = 404, content = []\<rparr>"]
    by (simp add: W demo_envs)
  have 3: "download_client_certificates demo_env_readonly ?S
             = (Inr False, ?S\<lparr>world := ?w, trace := trace ?S @ [HttpGet ?url ?v,
                  MakeDirs (path_dirname demo_env_readonly ''/c/k/o.pem''),
                  Emit download_client_certificate_signal
                    \<lparr>passed = False, error = ''Permission denied''\<rparr>]\<rparr>)"
    using cert_exceptions_reported [OF S(1,2) p(3) S(3) refl refl refl refl,
        where e = "OSError 13 (Inr ''Permission denied'')" and ?w1.0 = ?w and ?w2.0 = ?w
          and res = ?ok]
    by (simp add: W demo_envs)
  have 4: "download_client_certificates demo_env_nowrite ?S
             = (Inr False, ?S\<lparr>world := ''/c/k'' # ?w, trace := trace ?S @ [HttpGet ?url ?v,
                  MakeDirs (path_dirname demo_env_nowrite ''/c/k/o.pem''),
                  WriteFile ''/c/k/o.pem'' (content ?ok),
                  Emit download_client_certificate_signal
                    \<lparr>passed = False, error = ''Disk full''\<rparr>]\<rparr>)"
    using cert_exceptions_reported [OF S(1,2) p(4) S(3) refl refl refl refl,
        where e = "OtherException (Inr ''Disk full'')" and ?w1.0 = ?w
          and ?w2.0 = "''/c/k'' # ?w" and ?w3.0 = "''/c/k'' # ?w" and res = ?ok]
    by (simp add: W demo_envs)
  have 5: "download_client_certificates demo_env ?T
             = (Inr True,
                ?T\<lparr>world := [''/c/k/o.pem'', ''/c/leap/providers/d.org/eip-service.json'',
                               ''/c/k''],
                    trace := trace ?T @ [HttpGet ?url ?v,
                  MakeDirs (path_dirname demo_env ''/c/k/o.pem''),
                  WriteFile ''/c/k/o.pem'' (content ?ok),
                  Emit download_client_certificate_signal \<lparr>passed = True, error = []\<rparr>]\<rparr>)"
    using cert_exceptions_reported [OF T(1,2) p(5) T(3) refl refl refl refl,
        where t = "Inr ''File exists''"
          and ?w1.0 = "[''/c/leap/providers/d.org/eip-service.json'', ''/c/k'']"
          and ?w2.0 = "[''/c/leap/providers/d.org/eip-service.json'', ''/c/k'']"
          and ?w3.0 = "[''/c/k/o.pem'', ''/c/leap/providers/d.org/eip-service.json'', ''/c/k'']"
          and res = ?ok]
    by (simp add: W demo_envs)
  have 6: "download_client_certificates demo_env_unprintable ?S
             = (Inl (OtherException (Inr ''UnicodeEncodeError'')),
                ?S\<lparr>world := ?w, trace := trace ?S @ [HttpGet ?url ?v]\<rparr>)"
    using cert_exceptions_reported [OF S(1,2) p(6) S(3) refl refl refl refl,
        where e = "OtherException (Inl (OtherException (Inr ''UnicodeEncodeError'')))"
          and ?w1.0 = ?w]
    by (simp add: W demo_envs)
  show ?thesis
    unfolding 1 2 3 4 5 6 by simp
qed

text \<open>
  Claim C3 as stated (every exception of the certificate check, path computation
  included, is caught and reported, and nothing is raised to the worker loop) fails.
  When \<^verbatim>\<open>get_client_cert_path\<close> raises, the check raises that exception with the
  state unchanged, the worker loop ends with the exception, and nothing is emitted on
  \<^verbatim>\<open>download_client_certificate\<close>. When the request raises an exception that cannot
  be formatted, the handler raises, and the check has emitted nothing.
\<close>

theorem cert_path_exception_counterexample:
  "download_client_certificates demo_env_nopath (demo_state_cert [] False)
     = (Inl (OtherException (Inr ''no path'')), demo_state_cert [] False)
   \<and> fst (run demo_env_nopath (Suc (Suc 0)) (demo_state [] False))
       = Raised (OtherException (Inr ''no path''))
   \<and> \<not> list_ex (is_emit_on download_client_certificate_signal)
         (trace (snd (run demo_env_nopath (Suc (Suc 0)) (demo_state [] False))))
   \<and> fst (download_client_certificates demo_env_unprintable (demo_state_cert [] False))
       = Inl (OtherException (Inr ''UnicodeEncodeError''))
   \<and> \<not> list_ex (is_emit_on download_client_certificate_signal)
         (trace (snd (download_client_certificates demo_env_unprintable
                        (demo_state_cert [] False))))"
  by (simp add: demo_simps2)

text \<open>
  Claim C4, as amended. In the configuration check, when it is not skipped, an
  exception \<open>e\<close> of the HTTP request, of \<^verbatim>\<open>raise_for_status\<close>, of \<^verbatim>\<open>load\<close> or of
  \<^verbatim>\<open>save\<close> is caught. When \<^verbatim>\<open>"%s" % (e,)\<close> yields a text, the check emits
  \<^verbatim>\<open>{passed: False, error: <text>}\<close> as its last event and returns \<^verbatim>\<open>False\<close>; when
  that formatting raises, the check raises what the formatting raised and emits
  nothing. In every case the queue, the flags and the provider configuration are as
  before, and \<^verbatim>\<open>save\<close> is called only after \<^verbatim>\<open>load\<close> has succeeded, so that before
  that point nothing is written; after a \<^verbatim>\<open>save\<close> that raised, the file system is
  as \<^verbatim>\<open>save\<close> left it. The attribute \<^verbatim>\<open>_eip_config\<close> is not as before: it is the
  object built at the start of the check, in the state \<^verbatim>\<open>load\<close> left it when
  \<^verbatim>\<open>load\<close> was reached.
\<close>

theorem config_exceptions_reported:
  assumes "provider_config s = Some pc"
    and "\<not> (download_if_needed s \<and>
            path_exists env (world s)
              (path_join env [get_path_prefix env (new_EIPConfig env), ''leap'', ''providers'',
                              get_domain pc, ''eip-service.json'']))"
    and "url = get_api_uri pc @ ''/'' @ get_api_version pc @ ''/config/eip-service.json''"
    and "verify = get_ca_cert_path pc"
    and "parts = [''leap'', ''providers'', get_domain pc, ''eip-service.json'']"
    and "failed = (\<lambda>m. Emit download_config_signal \<lparr>passed = False, error = m\<rparr>)"
  shows "(session_get env (world s) url verify = (Inl e, w1) \<longrightarrow>
            download_config env s
              = (case str e of
                   Inl e' \<Rightarrow>
                     (Inl e',
                      s\<lparr>eip_config := Some (new_EIPConfig env), world := w1,
                        trace := trace s @ [HttpGet url verify]\<rparr>)
                 | Inr m \<Rightarrow>
                     (Inr False,
                      s\<lparr>eip_config := Some (new_EIPConfig env), world := w1,
                        trace := trace s @ [HttpGet url verify, failed m]\<rparr>)))
       \<and> (session_get env (world s) url verify = (Inr res, w1)
            \<and> raise_for_status env res = Some e \<longrightarrow>
            download_config env s
              = (case str e of
                   Inl e' \<Rightarrow>
                     (Inl e',
                      s\<lparr>eip_config := Some (new_EIPConfig env), world := w1,
                        trace := trace s @ [HttpGet url verify]\<rparr>)
                 | Inr m \<Rightarrow>
                     (Inr False,
                      s\<lparr>eip_config := Some (new_EIPConfig env), world := w1,
                        trace := trace s @ [HttpGet url verify, failed m]\<rparr>)))
       \<and> (session_get env (world s) url verify = (Inr res, w1)
            \<and> raise_for_status env res = None
            \<and> load env (new_EIPConfig env) (content res) = (Some e, cfg1) \<longrightarrow>
            download_config env s
              = (case str e of
                   Inl e' \<Rightarrow>
                     (Inl e',
                      s\<lparr>eip_config := Some cfg1, world := w1,
                        trace := trace s @ [HttpGet url verify, ConfigLoad (content res)]\<rparr>)
                 | Inr m \<Rightarrow>
                     (Inr False,
                      s\<lparr>eip_config := Some cfg1, world := w1,
                        trace := trace s @ [HttpGet url verify, ConfigLoad (content res),
                                            failed m]\<rparr>)))
       \<and> (session_get env (world s) url verify = (Inr res, w1)
            \<and> raise_for_status env res = None
            \<and> load env (new_EIPConfig env) (content res) = (None, cfg1)
            \<and> save env w1 cfg1 parts = (Some e, w2) \<longrightarrow>
            download_config env s
              = (case str e of
                   Inl e' \<Rightarrow>
                     (Inl e',
                      s\<lparr>eip_config := Some cfg1, world := w2,
                        trace := trace s @ [HttpGet url verify, ConfigLoad (content res),
                                            ConfigSave parts]\<rparr>)
                 | Inr m \<Rightarrow>
                     (Inr False,
                      s\<lparr>eip_config := Some cfg1, world := w2,
                        trace := trace s @ [HttpGet url verify, ConfigLoad (content res),
                                            ConfigSave parts, failed m]\<rparr>)))"
  using assms
  by (auto simp: download_config_def download_config_try_def emit_def log_def Let_def
      split: sum.splits)

theorem config_exceptions_reported_witness:
  "fst (download_config demo_env_offline (demo_state [] False)) = Inr False
   \<and> last (trace (snd (download_config demo_env_offline (demo_state [] False))))
       = Emit download_config_signal \<lparr>passed = False, error = ''timeout''\<rparr>
   \<and> fst (download_config demo_env_404 (demo_state [] False)) = Inr False
   \<and> fst (download_config demo_env_badjson (demo_state [] False)) = Inr False
   \<and> fst (download_config demo_env_readonly (demo_state [] False)) = Inr False
   \<and> checks (snd (download_config demo_env_readonly (demo_state [] False)))
       = checks (demo_state [] False)
   \<and> fst (download_config demo_env_unprintable (demo_state [] False))
       = Inl (OtherException (Inr ''UnicodeEncodeError''))"
proof -
  let ?S = "demo_state [] False"
  let ?url = "get_api_uri demo_provider @ ''/'' @ get_api_version demo_provider
                @ ''/config/eip-service.json''"
  let ?v = "get_ca_cert_path demo_provider"
  let ?parts = "[''leap'', ''providers'', get_domain demo_provider, ''eip-service.json'']"
  let ?ok = "\<lparr>status_code = 200, content = ''x''\<rparr>"
  have S: "provider_config ?S = Some demo_provider"
    "\<not> (download_if_needed ?S \<and> path_exists env (world ?S) p)" for env p
    by (simp_all add: demo_simps2)
  have W: "world ?S = []"
    by (simp add: demo_simps2)
  note demo_envs = demo_env_def demo_env_offline_def demo_env_404_def demo_env_readonly_def
    demo_env_badjson_def demo_env_unprintable_def demo_provider_def
  have 1: "download_config demo_env_offline ?S
             = (Inr False,
                ?S\<lparr>eip_config := Some (new_EIPConfig demo_env_offline), world := [],
                    trace := trace ?S @ [HttpGet ?url ?v,
                      Emit download_config_signal
                        \<lparr>passed = False, error = ''timeout''\<rparr>]\<rparr>)"
    using config_exceptions_reported [OF S(1) S(2) refl refl refl refl,
        where e = "OtherException (Inr ''timeout'')" and ?w1.0 = "[]"]
    by (simp add: W demo_envs)
  have 2: "download_config demo_env_404 ?S
             = (Inr False,
                ?S\<lparr>eip_config := Some (new_EIPConfig demo_env_404), world := [],
                    trace := trace ?S @ [HttpGet ?url ?v,
                      Emit download_config_signal
                        \<lparr>passed = False, error = ''HTTPError''\<rparr>]\<rparr>)"
    using config_exceptions_reported [OF S(1) S(2) refl refl refl refl,
        where e = "OtherException (Inr ''HTTPError'')" and ?w1.0 = "[]"
          and res = "\<lparr>status_code = 404, content = []\<rparr>"]
    by (simp add: W demo_envs)
  have 3: "download_config demo_env_badjson ?S
             = (Inr False,
                ?S\<lparr>eip_config := Some [], world := [],
                    trace := trace ?S @ [HttpGet ?url ?v, ConfigLoad (content ?ok),
                      Emit download_config_signal
                        \<lparr>passed = False, error = ''bad json''\<rparr>]\<rparr>)"
    using config_exceptions_reported [OF S(1) S(2) refl refl refl refl,
        where e = "OtherException (Inr ''bad json'')" and ?w1.0 = "[]" and res = ?ok
          and ?cfg1.0 = "[]"]
    by (simp add: W demo_envs)
  have 4: "download_config demo_env_readonly ?S
             = (Inr False,
                ?S\<lparr>eip_config := Some ''x'', world := [],
                    trace := trace ?S @ [HttpGet ?url ?v, ConfigLoad (content ?ok),
                      ConfigSave ?parts,
                      Emit download_config_signal
                        \<lparr>passed = False, error = ''Permission denied''\<rparr>]\<rparr>)"
    using config_exceptions_reported [OF S(1) S(2) refl refl refl refl,
        where e = "OSError 13 (Inr ''Permission denied'')" and ?w1.0 = "[]" and ?w2.0 = "[]"
          and res = ?ok and ?cfg1.0 = "''x''"]
    by (simp add: W demo_envs)
  have 5: "download_config demo_env_unprintable ?S
             = (Inl (OtherException (Inr ''UnicodeEncodeError'')),
                ?S\<lparr>eip_config := Some (new_EIPConfig demo_env_unprintable), world := [],
                    trace := trace ?S @ [HttpGet ?url ?v]\<rparr>)"
    using config_exceptions_reported [OF S(1) S(2) refl refl refl refl,
        where e = "OtherException (Inl (OtherException (Inr ''UnicodeEncodeError'')))"
          and ?w1.0 = "[]"]
    by (simp add: W demo_envs)
  show ?thesis
    unfolding 1 2 3 4 5 by simp
qed

text \<open>
  Claim C4 as stated (after an exception the check has reported a failure, no file
  has been written and the state of the runner, the derived configuration included,
  is the one before the check) fails. On a bootstrapper whose \<^verbatim>\<open>_eip_config\<close> is
  \<^verbatim>\<open>None\<close>, a configuration check whose request fails leaves a new, empty
  \<^verbatim>\<open>EIPConfig\<close> behind, and one whose \<^verbatim>\<open>save\<close> fails leaves an \<^verbatim>\<open>EIPConfig\<close>
  holding the downloaded descriptor. When \<^verbatim>\<open>save\<close> raises after it has created the
  file, the check reports the failure and the file stays. When the request raises
  an exception that cannot be formatted, the check raises and reports nothing.
\<close>

theorem config_state_preserved_counterexample:
  "fst (download_config demo_env_offline (demo_state [] False)) = Inr False
   \<and> eip_config (demo_state [] False) = None
   \<and> eip_config (snd (download_config demo_env_offline (demo_state [] False))) = Some ''''
   \<and> fst (download_config demo_env_readonly (demo_state [] False)) = Inr False
   \<and> eip_config (snd (download_config demo_env_readonly (demo_state [] False))) = Some ''x''
   \<and> fst (download_config demo_env_partial_save (demo_state [] False)) = Inr False
   \<and> \<not> path_exists demo_env_partial_save (world (demo_state [] False))
         ''/c/leap/providers/d.org/eip-service.json''
   \<and> path_exists demo_env_partial_save
        (world (snd (download_config demo_env_partial_save (demo_state [] False))))
        ''/c/leap/providers/d.org/eip-service.json''
   \<and> fst (download_config demo_env_unprintable (demo_state [] False))
       = Inl (OtherException (Inr ''UnicodeEncodeError''))
   \<and> \<not> list_ex is_emit
         (trace (snd (download_config demo_env_unprintable (demo_state [] False))))"
  by (simp add: demo_simps2)

section \<open>The configuration left by a skipped download\<close>

text \<open>
  Claim C10. When the configuration check is skipped (flag set, descriptor on disk), it
  returns \<^verbatim>\<open>True\<close> having called neither the server nor \<^verbatim>\<open>load\<close>: its only event is
  the emission, and \<^verbatim>\<open>_eip_config\<close> is the object \<^verbatim>\<open>EIPConfig()\<close> as constructed. The
  certificate check that follows asks this object for the destination path: it raises
  what \<^verbatim>\<open>get_client_cert_path\<close> of the new object raises, and otherwise skips or
  downloads to the path that call returned.
\<close>

theorem skip_leaves_empty_config:
  assumes "provider_config s = Some pc"
    and "download_if_needed s"
    and "path_exists env (world s)
           (path_join env [get_path_prefix env (new_EIPConfig env), ''leap'', ''providers'',
                           get_domain pc, ''eip-service.json''])"
    and "s' = s\<lparr>eip_config := Some (new_EIPConfig env),
                 trace := trace s @ [Emit download_config_signal
                                       \<lparr>passed = True, error = ''''\<rparr>]\<rparr>"
  shows "download_config env s = (Inr True, s')
         \<and> eip_config s' = Some (new_EIPConfig env)
         \<and> download_client_certificates env s' =
             (case get_client_cert_path env (new_EIPConfig env) pc True of
                Inl e \<Rightarrow> (Inl e, s')
              | Inr p \<Rightarrow>
                  if path_exists env (world s) p
                  then (Inr True,
                        emit download_client_certificate_signal
                          \<lparr>passed = True, error = ''''\<rparr> s')
                  else (case download_client_certificates_try env pc p s' of
                          (None, s1) \<Rightarrow>
                            (Inr True,
                             emit download_client_certificate_signal
                               \<lparr>passed = True, error = ''''\<rparr> s1)
                        | (Some e, s1) \<Rightarrow>
                            (case str e of
                               Inl e' \<Rightarrow> (Inl e', s1)
                             | Inr m \<Rightarrow>
                                 (Inr False,
                                  emit download_client_certificate_signal
                                    \<lparr>passed = False, error = m\<rparr> s1))))"
  using assms
  by (auto simp: download_config_def download_client_certificates_def emit_def log_def Let_def
      split: sum.splits)

theorem skip_leaves_empty_config_witness:
  "provider_config (demo_state [''/c/leap/providers/d.org/eip-service.json''] True)
     = Some demo_provider
   \<and> download_if_needed (demo_state [''/c/leap/providers/d.org/eip-service.json''] True)
   \<and> path_exists demo_env
        (world (demo_state [''/c/leap/providers/d.org/eip-service.json''] True))
        (path_join demo_env [get_path_prefix demo_env (new_EIPConfig demo_env), ''leap'',
                             ''providers'', get_domain demo_provider, ''eip-service.json''])
   \<and> eip_config (snd (download_config demo_env
        (demo_state [''/c/leap/providers/d.org/eip-service.json''] True)))
       = Some (new_EIPConfig demo_env)
   \<and> new_EIPConfig demo_env = ''''"
proof -
  let ?s = "demo_state [''/c/leap/providers/d.org/eip-service.json''] True"
  have a: "provider_config ?s = Some demo_provider"
    by (simp add: demo_state_def init_def log_def)
  have b: "download_if_needed ?s"
    by (simp add: demo_state_def init_def log_def)
  have c: "path_exists demo_env (world ?s)
             (path_join demo_env [get_path_prefix demo_env (new_EIPConfig demo_env), ''leap'',
                                  ''providers'', get_domain demo_provider, ''eip-service.json''])"
    by (simp add: demo_state_def init_def log_def demo_env_def demo_join_def demo_provider_def)
  have d: "new_EIPConfig demo_env = ''''"
    by (simp add: demo_env_def)
  note r = skip_leaves_empty_config [OF a b c refl]
  have "eip_config (snd (download_config demo_env ?s)) = Some (new_EIPConfig demo_env)"
    using r by simp
  then show ?thesis using a b c d by blast
qed

section \<open>The HTTP requests\<close>

text \<open>
  Claim C8, as amended. A configuration check that is not skipped starts with the
  request \<^verbatim>\<open>GET <api_uri>/<api_version>/config/eip-service.json\<close>, a certificate
  check that is not skipped starts with \<^verbatim>\<open>GET <api_uri>/<api_version>/cert/\<close>; both
  pass the provider's CA certificate path as \<^verbatim>\<open>verify\<close>, and neither makes another
  request. The status of the response counts only through \<^verbatim>\<open>raise_for_status\<close>.
  When \<^verbatim>\<open>raise_for_status\<close> raises \<open>e\<close> and \<^verbatim>\<open>"%s" % (e,)\<close> yields a text, the
  check does nothing more than to emit \<^verbatim>\<open>{passed: False, error: <text>}\<close>, and returns
  \<^verbatim>\<open>False\<close>; when that formatting raises, the check raises what the formatting raised
  and emits nothing. When \<^verbatim>\<open>raise_for_status\<close> does not raise, the response is used
  whatever its status is: if the later calls succeed, the check emits
  \<^verbatim>\<open>{passed: True}\<close> and returns \<^verbatim>\<open>True\<close>.
\<close>

theorem requests_and_status:
  assumes "provider_config s = Some pc"
    and "verify = get_ca_cert_path pc"
    and "config_url = get_api_uri pc @ ''/'' @ get_api_version pc @ ''/config/eip-service.json''"
    and "cert_url = get_api_uri pc @ ''/'' @ get_api_version pc @ ''/cert/''"
    and "parts = [''leap'', ''providers'', get_domain pc, ''eip-service.json'']"
  shows "(\<not> (download_if_needed s \<and>
              path_exists env (world s)
                (path_join env [get_path_prefix env (new_EIPConfig env), ''leap'',
                                ''providers'', get_domain pc, ''eip-service.json''])) \<longrightarrow>
            (\<exists>rest. drop (length (trace s)) (trace (snd (download_config env s)))
                       = HttpGet config_url verify # rest
                   \<and> \<not> list_ex is_http rest)
            \<and> (session_get env (world s) config_url verify = (Inr res, w1)
                 \<and> raise_for_status env res = Some e \<longrightarrow>
                 download_config env s
                   = (case str e of
                        Inl e' \<Rightarrow>
                          (Inl e',
                           s\<lparr>eip_config := Some (new_EIPConfig env), world := w1,
                             trace := trace s @ [HttpGet config_url verify]\<rparr>)
                      | Inr m \<Rightarrow>
                          (Inr False,
                           s\<lparr>eip_config := Some (new_EIPConfig env), world := w1,
                             trace := trace s @ [HttpGet config_url verify,
                               Emit download_config_signal
                                 \<lparr>passed = False, error = m\<rparr>]\<rparr>)))
            \<and> (session_get env (world s) config_url verify = (Inr res, w1)
                 \<and> raise_for_status env res = None
                 \<and> load env (new_EIPConfig env) (content res) = (None, cfg1)
                 \<and> save env w1 cfg1 parts = (None, w2) \<longrightarrow>
                 download_config env s
                   = (Inr True,
                      s\<lparr>eip_config := Some cfg1, world := w2,
                        trace := trace s @ [HttpGet config_url verify,
                          ConfigLoad (content res), ConfigSave parts,
                          Emit download_config_signal \<lparr>passed = True, error = ''''\<rparr>]\<rparr>)))
       \<and> (eip_config s = Some cfg \<and> get_client_cert_path env cfg pc True = Inr p
            \<and> \<not> (download_if_needed s \<and> path_exists env (world s) p) \<longrightarrow>
            (\<exists>rest. drop (length (trace s)) (trace (snd (download_client_certificates env s)))
                       = HttpGet cert_url verify # rest
                   \<and> \<not> list_ex is_http rest)
            \<and> (session_get env (world s) cert_url verify = (Inr res, w1)
                 \<and> raise_for_status env res = Some e \<longrightarrow>
                 download_client_certificates env s
                   = (case str e of
                        Inl e' \<Rightarrow>
                          (Inl e',
                           s\<lparr>world := w1, trace := trace s @ [HttpGet cert_url verify]\<rparr>)
                      | Inr m \<Rightarrow>
                          (Inr False,
                           s\<lparr>world := w1,
                             trace := trace s @ [HttpGet cert_url verify,
                               Emit download_client_certificate_signal
                                 \<lparr>passed = False, error = m\<rparr>]\<rparr>)))
            \<and> (session_get env (world s) cert_url verify = (Inr res, w1)
                 \<and> raise_for_status env res = None
                 \<and> makedirs env w1 (path_dirname env p) = (None, w2)
                 \<and> write_file env w2 p (content res) = (None, w3) \<longrightarrow>
                 download_client_certificates env s
                   = (Inr True,
                      s\<lparr>world := w3,
                        trace := trace s @ [HttpGet cert_url verify,
                          MakeDirs (path_dirname env p), WriteFile p (content res),
                          Emit download_client_certificate_signal
                            \<lparr>passed = True, error = ''''\<rparr>]\<rparr>)))"
proof -
  have cfg_try: "\<exists>rest. drop (length (trace t)) (trace (snd (download_config_try env pc c t)))
                    = HttpGet config_url verify # rest \<and> \<not> list_ex is_http rest" for t c
    using assms(2,3)
    by (auto simp: download_config_try_def log_def Let_def
        split: prod.splits sum.splits option.splits)
  have cert_try: "\<exists>rest. drop (length (trace t))
                      (trace (snd (download_client_certificates_try env pc q t)))
                    = HttpGet cert_url verify # rest \<and> \<not> list_ex is_http rest" for t q
    using assms(2,4)
    by (auto simp: download_client_certificates_try_def log_def Let_def
        split: prod.splits sum.splits option.splits)
  have A: "\<exists>rest. drop (length (trace s)) (trace (snd (download_config env s)))
                       = HttpGet config_url verify # rest
                   \<and> \<not> list_ex is_http rest"
    if ns: "\<not> (download_if_needed s \<and>
              path_exists env (world s)
                (path_join env [get_path_prefix env (new_EIPConfig env), ''leap'',
                                ''providers'', get_domain pc, ''eip-service.json'']))"
  proof -
    let ?t = "s\<lparr>eip_config := Some (new_EIPConfig env)\<rparr>"
    obtain r s1 where x: "download_config_try env pc (new_EIPConfig env) ?t = (r, s1)"
      by (cases "download_config_try env pc (new_EIPConfig env) ?t")
    from cfg_try [of ?t "new_EIPConfig env"] x obtain rest where
      d: "drop (length (trace s)) (trace s1) = HttpGet config_url verify # rest"
      and n: "\<not> list_ex is_http rest" by auto
    from download_config_try_trace [OF x] obtain evs where e: "trace s1 = trace s @ evs"
      by auto
    have "\<exists>tl. trace (snd (download_config env s)) = trace s1 @ tl \<and> \<not> list_ex is_http tl"
      using ns assms(1) x
      by (auto simp: download_config_def emit_def log_def Let_def
          split: option.splits sum.splits)
    then obtain tl where
      t: "trace (snd (download_config env s)) = trace s1 @ tl" and nt: "\<not> list_ex is_http tl"
      by blast
    have "drop (length (trace s)) (trace (snd (download_config env s)))
            = HttpGet config_url verify # (rest @ tl)"
      using t d e by simp
    moreover have "\<not> list_ex is_http (rest @ tl)"
      using n nt by simp
    ultimately show ?thesis by blast
  qed
  have B: "download_config env s
                   = (case str e of
                        Inl e' \<Rightarrow>
                          (Inl e',
                           s\<lparr>eip_config := Some (new_EIPConfig env), world := w1,
                             trace := trace s @ [HttpGet config_url verify]\<rparr>)
                      | Inr m \<Rightarrow>
                          (Inr False,
                           s\<lparr>eip_config := Some (new_EIPConfig env), world := w1,
                             trace := trace s @ [HttpGet config_url verify,
                               Emit download_config_signal
                                 \<lparr>passed = False, error = m\<rparr>]\<rparr>))"
    if "\<not> (download_if_needed s \<and>
              path_exists env (world s)
                (path_join env [get_path_prefix env (new_EIPConfig env), ''leap'',
                                ''providers'', get_domain pc, ''eip-service.json'']))"
      and "session_get env (world s) config_url verify = (Inr res, w1)"
      and "raise_for_status env res = Some e"
    using that assms
    by (auto simp: download_config_def download_config_try_def emit_def log_def Let_def
        split: sum.splits)
  have B': "download_config env s
                   = (Inr True,
                      s\<lparr>eip_config := Some cfg1, world := w2,
                        trace := trace s @ [HttpGet config_url verify,
                          ConfigLoad (content res), ConfigSave parts,
                          Emit download_config_signal \<lparr>passed = True, error = ''''\<rparr>]\<rparr>)"
    if "\<not> (download_if_needed s \<and>
              path_exists env (world s)
                (path_join env [get_path_prefix env (new_EIPConfig env), ''leap'',
                                ''providers'', get_domain pc, ''eip-service.json'']))"
      and "session_get env (world s) config_url verify = (Inr res, w1)"
      and "raise_for_status env res = None"
      and "load env (new_EIPConfig env) (content res) = (None, cfg1)"
      and "save env w1 cfg1 parts = (None, w2)"
    using that assms
    by (auto simp: download_config_def download_config_try_def emit_def log_def Let_def)
  have C: "\<exists>rest. drop (length (trace s)) (trace (snd (download_client_certificates env s)))
                       = HttpGet cert_url verify # rest
                   \<and> \<not> list_ex is_http rest"
    if ec: "eip_config s = Some cfg" and gp: "get_client_cert_path env cfg pc True = Inr p"
      and ns: "\<not> (download_if_needed s \<and> path_exists env (world s) p)"
  proof -
    obtain r s1 where x: "download_client_certificates_try env pc p s = (r, s1)"
      by (cases "download_client_certificates_try env pc p s")
    from cert_try [of s p] x obtain rest where
      d: "drop (length (trace s)) (trace s1) = HttpGet cert_url verify # rest"
      and n: "\<not> list_ex is_http rest" by auto
    from cert_try_trace [OF x] obtain evs where e: "trace s1 = trace s @ evs"
      by auto
    have "\<exists>tl. trace (snd (download_client_certificates env s)) = trace s1 @ tl
                \<and> \<not> list_ex is_http tl"
      using ec gp ns assms(1) x
      by (auto simp: download_client_certificates_def emit_def log_def Let_def
          split: option.splits sum.splits)
    then obtain tl where
      t: "trace (snd (download_client_certificates env s)) = trace s1 @ tl"
      and nt: "\<not> list_ex is_http tl"
      by blast
    have "drop (length (trace s)) (trace (snd (download_client_certificates env s)))
            = HttpGet cert_url verify # (rest @ tl)"
      using t d e by simp
    moreover have "\<not> list_ex is_http (rest @ tl)"
      using n nt by simp
    ultimately show ?thesis by blast
  qed
  have D: "download_client_certificates env s
                   = (case str e of
                        Inl e' \<Rightarrow>
                          (Inl e',
                           s\<lparr>world := w1, trace := trace s @ [HttpGet cert_url verify]\<rparr>)
                      | Inr m \<Rightarrow>
                          (Inr False,
                           s\<lparr>world := w1,
                             trace := trace s @ [HttpGet cert_url verify,
                               Emit download_client_certificate_signal
                                 \<lparr>passed = False, error = m\<rparr>]\<rparr>))"
    if "eip_config s = Some cfg" and "get_client_cert_path env cfg pc True = Inr p"
      and "\<not> (download_if_needed s \<and> path_exists env (world s) p)"
      and "session_get env (world s) cert_url verify = (Inr res, w1)"
      and "raise_for_status env res = Some e"
    using that assms
    by (auto simp: download_client_certificates_def download_client_certificates_try_def
        emit_def log_def Let_def split: sum.splits)
  have D': "download_client_certificates env s
                   = (Inr True,
                      s\<lparr>world := w3,
                        trace := trace s @ [HttpGet cert_url verify,
                          MakeDirs (path_dirname env p), WriteFile p (content res),
                          Emit download_client_certificate_signal
                            \<lparr>passed = True, error = ''''\<rparr>]\<rparr>)"
    if "eip_config s = Some cfg" and "get_client_cert_path env cfg pc True = Inr p"
      and "\<not> (download_if_needed s \<and> path_exists env (world s) p)"
      and "session_get env (world s) cert_url verify = (Inr res, w1)"
      and "raise_for_status env res = None"
      and "makedirs env w1 (path_dirname env p) = (None, w2)"
      and "write_file env w2 p (content res) = (None, w3)"
    using that assms
    by (auto simp: download_client_certificates_def download_client_certificates_try_def
        emit_def log_def Let_def)
  show ?thesis using A B B' C D D' by blast
qed

theorem requests_and_status_witness:
  "provider_config (demo_state [] False) = Some demo_provider
   \<and> drop (length (trace (demo_state [] False)))
        (trace (snd (download_config demo_env_404 (demo_state [] False))))
       = [HttpGet ''https://api.d.org/1/config/eip-service.json'' ''/ca.crt'',
          Emit download_config_signal \<lparr>passed = False, error = ''HTTPError''\<rparr>]
   \<and> eip_config (demo_state_cert [] False) = Some ''x''
   \<and> drop (length (trace (demo_state_cert [] False)))
        (trace (snd (download_client_certificates demo_env_404 (demo_state_cert [] False))))
       = [HttpGet ''https://api.d.org/1/cert/'' ''/ca.crt'',
          Emit download_client_certificate_signal \<lparr>passed = False, error = ''HTTPError''\<rparr>]
   \<and> fst (download_config demo_env_304 (demo_state [] False)) = Inr True"
proof -
  let ?S = "demo_state [] False"
  let ?T = "demo_state_cert [] False"
  let ?bad = "\<lparr>status_code = 404, content = []\<rparr>"
  let ?nm = "\<lparr>status_code = 304, content = []\<rparr>"
  have S: "provider_config ?S = Some demo_provider" "world ?S = []"
    "\<not> (download_if_needed ?S \<and> path_exists env (world ?S) q)" for env q
    by (simp_all add: demo_simps2)
  have T: "provider_config ?T = Some demo_provider" "eip_config ?T = Some ''x''"
    "world ?T = [''/c/leap/providers/d.org/eip-service.json'']"
    "\<not> (download_if_needed ?T \<and> path_exists env (world ?T) q)" for env q
    by (simp_all add: demo_simps2)
  note demo_envs = demo_env_def demo_env_404_def demo_env_304_def demo_provider_def
    demo_join_def
  have 1: "download_config demo_env_404 ?S
             = (Inr False,
                ?S\<lparr>eip_config := Some (new_EIPConfig demo_env_404), world := [],
                    trace := trace ?S
                      @ [HttpGet ''https://api.d.org/1/config/eip-service.json'' ''/ca.crt'',
                         Emit download_config_signal
                           \<lparr>passed = False, error = ''HTTPError''\<rparr>]\<rparr>)"
    using requests_and_status [OF S(1) refl refl refl refl,
        where env = demo_env_404 and res = ?bad and ?w1.0 = "[]"
          and e = "OtherException (Inr ''HTTPError'')"]
    by (simp add: S demo_envs)
  have 2: "download_client_certificates demo_env_404 ?T
             = (Inr False,
                ?T\<lparr>world := [''/c/leap/providers/d.org/eip-service.json''],
                    trace := trace ?T
                      @ [HttpGet ''https://api.d.org/1/cert/'' ''/ca.crt'',
                         Emit download_client_certificate_signal
                           \<lparr>passed = False, error = ''HTTPError''\<rparr>]\<rparr>)"
    using requests_and_status [OF T(1) refl refl refl refl,
        where env = demo_env_404 and res = ?bad
          and ?w1.0 = "[''/c/leap/providers/d.org/eip-service.json'']"
          and e = "OtherException (Inr ''HTTPError'')" and cfg = "''x''"
          and p = "''/c/k/o.pem''"]
    by (simp add: T demo_envs)
  have 3: "download_config demo_env_304 ?S
             = (Inr True,
                ?S\<lparr>eip_config := Some [],
                    world := [''/c/leap/providers/d.org/eip-service.json''],
                    trace := trace ?S
                      @ [HttpGet ''https://api.d.org/1/config/eip-service.json'' ''/ca.crt'',
                         ConfigLoad [],
                         ConfigSave [''leap'', ''providers'', ''d.org'', ''eip-service.json''],
                         Emit download_config_signal \<lparr>passed = True, error = []\<rparr>]\<rparr>)"
    using requests_and_status [OF S(1) refl refl refl refl,
        where env = demo_env_304 and res = ?nm and ?w1.0 = "[]" and ?cfg1.0 = "[]"
          and ?w2.0 = "[''/c/leap/providers/d.org/eip-service.json'']"]
    by (simp add: S demo_envs)
  show ?thesis
    unfolding 1 2 3 using S(1) T(2) by simp
qed

text \<open>
  Claim C8 as stated (each step treats a non-2xx response as failure) fails. A server
  that answers 304 to every request sends a response that is not 2xx and on which
  \<^verbatim>\<open>raise_for_status\<close> does not raise; the configuration check and the certificate
  check both emit \<^verbatim>\<open>{passed: True}\<close> and return \<^verbatim>\<open>True\<close>. And when
  \<^verbatim>\<open>raise_for_status\<close> raises an exception that cannot be formatted, the check
  raises and reports nothing.
\<close>

theorem non_2xx_response_counterexample:
  "session_get demo_env_304 [] ''https://api.d.org/1/config/eip-service.json'' ''/ca.crt''
     = (Inr \<lparr>status_code = 304, content = ''''\<rparr>, [])
   \<and> raise_for_status demo_env_304 \<lparr>status_code = 304, content = ''''\<rparr> = None
   \<and> fst (download_config demo_env_304 (demo_state [] False)) = Inr True
   \<and> last (trace (snd (download_config demo_env_304 (demo_state [] False))))
       = Emit download_config_signal \<lparr>passed = True, error = ''''\<rparr>
   \<and> fst (download_client_certificates demo_env_304 (demo_state_cert [] False)) = Inr True
   \<and> last (trace (snd (download_client_certificates demo_env_304 (demo_state_cert [] False))))
       = Emit download_client_certificate_signal \<lparr>passed = True, error = ''''\<rparr>
   \<and> fst (download_config demo_env_badstatus (demo_state [] False))
       = Inl (OtherException (Inr ''UnicodeEncodeError''))
   \<and> \<not> list_ex is_emit
         (trace (snd (download_config demo_env_badstatus (demo_state [] False))))"
  by (simp add: demo_simps2)

end
